theory Spec2Isabelle
  imports Complex_Main "HOL-Library.Multiset"
begin

section \<open>Strings and arrays as the TypeScript code uses them\<close>

text \<open>
  A JavaScript string is modelled by the list of its UTF-8 bytes (\<^typ>\<open>string\<close>), which is
  what \<^verbatim>\<open>new TextEncoder().encode(s)\<close> yields. The separators the code looks for
  (\<^verbatim>\<open>/\<close>, \<^verbatim>\<open>.\<close>) are ASCII, so splitting, joining, \<^verbatim>\<open>startsWith\<close> and
  \<^verbatim>\<open>endsWith\<close> act on the bytes as they act on the UTF-16 code units.
\<close>

definition startsWith :: "string \<Rightarrow> string \<Rightarrow> bool" where
  \<comment> \<open>\<^verbatim>\<open>s.startsWith(p)\<close>\<close>
  "startsWith p s = (take (length p) s = p)"


fun split_on :: "char \<Rightarrow> string \<Rightarrow> string list" where
  \<comment> \<open>\<^verbatim>\<open>s.split(c)\<close> for a one-character separator: never the empty array\<close>
  "split_on c [] = [[]]"
| "split_on c (x # xs) =
     (if x = c then [] # split_on c xs
      else (case split_on c xs of
              [] \<Rightarrow> [[x]]
            | w # ws \<Rightarrow> (x # w) # ws))"

fun join :: "string \<Rightarrow> string list \<Rightarrow> string" where
  \<comment> \<open>\<^verbatim>\<open>parts.join(sep)\<close>\<close>
  "join sep [] = []"
| "join sep [x] = x"
| "join sep (x # y # ys) = x @ sep @ join sep (y # ys)"

section \<open>WasmBundler: import resolution over the virtual file set\<close>

text \<open>
  The virtual file set is the \<^verbatim>\<open>Map<string, string>\<close> of the source: a partial map from
  path to content; \<^verbatim>\<open>files.has(k)\<close> is \<open>files k \<noteq> None\<close>.
\<close>

type_synonym file_set = "string \<rightharpoonup> string"

definition resolvePath_step :: "string list \<Rightarrow> string \<Rightarrow> string list" where
  \<comment> \<open>one turn of the loop of \<^verbatim>\<open>resolvePath\<close>; \<^verbatim>\<open>pop()\<close> on the empty array does nothing\<close>
  "resolvePath_step parts part =
     (if part = ''..'' then butlast parts
      else if part \<noteq> ''.'' then parts @ [part]
      else parts)"

definition resolvePath :: "string \<Rightarrow> string \<Rightarrow> string" where
  "resolvePath basePath relativePath =
     (let parts = filter (\<lambda>p. p \<noteq> []) (split_on CHR ''/'' basePath);
          relativeParts = filter (\<lambda>p. p \<noteq> []) (split_on CHR ''/'' relativePath)
      in join ''/'' (foldl resolvePath_step parts relativeParts))"

fun first_existing :: "file_set \<Rightarrow> string list \<Rightarrow> string option" where
  \<comment> \<open>\<^verbatim>\<open>for (const c of candidates) { if (files.has(c)) return c }\<close>; \<open>None\<close>: the loop fell through\<close>
  "first_existing files [] = None"
| "first_existing files (c # cs) =
     (if files c \<noteq> None then Some c else first_existing files cs)"

definition importerDir :: "string \<Rightarrow> string" where
  \<comment> \<open>\<^verbatim>\<open>importer.split('/').slice(0, -1).join('/')\<close>\<close>
  "importerDir importer = join ''/'' (butlast (split_on CHR ''/'' importer))"

definition resolveImport :: "string \<Rightarrow> string \<Rightarrow> file_set \<Rightarrow> string option" where
  "resolveImport importPath importer files =
     (let relative =
            (if startsWith ''./'' importPath \<or> startsWith ''../'' importPath then
               (let resolved = resolvePath (importerDir importer) importPath
                in first_existing files
                     (map (\<lambda>ext. resolved @ ext)
                        ['''', ''.js'', ''.mjs'', ''.ts'', ''/index.js'', ''/index.mjs'', ''/index.ts'']))
             else None)
      in case relative of
           Some candidate \<Rightarrow> Some candidate
         | None \<Rightarrow>
             if \<not> startsWith ''.'' importPath then
               first_existing files
                 [''node_modules/'' @ importPath,
                  ''node_modules/'' @ importPath @ ''/index.js'',
                  ''node_modules/'' @ importPath @ ''/index.mjs'',
                  ''node_modules/'' @ importPath @ ''/dist/index.js'',
                  ''node_modules/'' @ importPath @ ''/lib/index.js'']
             else None)"

section \<open>Types of the package analyzer (types.ts)\<close>

text \<open>
  Record fields carry a prefix for their interface, since several interfaces of the source
  share the field names \<^verbatim>\<open>name\<close>, \<^verbatim>\<open>size\<close>, \<^verbatim>\<open>type\<close> and \<^verbatim>\<open>path\<close>. An optional field
  (\<^verbatim>\<open>main?: string\<close>) is an \<open>option\<close>; \<open>None\<close> is \<^verbatim>\<open>undefined\<close>. A \<^verbatim>\<open>Record<string, string>\<close>
  is the list of its entries in the order of \<^verbatim>\<open>Object.keys\<close>. The optional fields
  \<^verbatim>\<open>CDNFile.content\<close> and \<^verbatim>\<open>Asset.path\<close>, which the code neither sets nor reads, are left
  out, as is the interface \<^verbatim>\<open>WebContainerFiles\<close>.
\<close>

datatype file_type = File | Directory

record CDNFile =
  cf_path :: string
  cf_size :: nat
  cf_type :: file_type

datatype module_type = Module | CommonJS

datatype side_effects = SideEffectsFlag bool | SideEffectsPaths "string list"

record CDNPackageInfo =
  pi_name :: string
  pi_version :: string
  pi_files :: "CDNFile list"
  pi_dependencies :: "(string \<times> string) list option"
  pi_peerDependencies :: "(string \<times> string) list option"
  pi_main :: "string option"
  pi_module :: "string option"
  pi_type :: "module_type option"
  pi_sideEffects :: "side_effects option"

datatype asset_type = JS | CSS | Other

record Asset =
  as_name :: string
  as_size :: nat
  as_gzipSize :: nat
  as_type :: asset_type

record PackageStats =
  ps_name :: string
  ps_size :: nat
  ps_gzipSize :: nat
  ps_parseTime :: "nat option"
  ps_dependencyCount :: nat
  ps_hasJSNext :: bool
  ps_hasJSModule :: bool
  ps_isModuleType :: bool
  ps_hasSideEffects :: side_effects
  ps_peerDependencies :: "string list"
  ps_dependencySizes :: "(string \<times> nat) list"
  ps_assets :: "Asset list"

datatype minifier = Terser | Esbuild

datatype cdn_provider = Unpkg | JsDelivr | Skypack | EsmSh

record BrowserPackageAnalyzerOptions =
  opt_minifier :: "minifier option"
  opt_debug :: "bool option"
  opt_customImports :: "string list option"
  opt_esm :: "bool option"
  opt_includeDependencySizes :: "bool option"
  opt_cdn :: "cdn_provider option"
  opt_useWebContainer :: "bool option"



section \<open>Errors\<close>

text \<open>
  Every \<^verbatim>\<open>throw\<close> of the source is a constructor; an error that wraps another one
  (\<^verbatim>\<open>`Bundling failed: ${error}`\<close>) keeps it as its argument. \<open>Thrown\<close> is an exception
  raised by a collaborator outside the repository (esbuild, terser, the sandbox), with its
  message. \<open>FetchRejected\<close> is the rejection of \<^verbatim>\<open>fetch\<close> for a URL, \<open>JsonRejected\<close> that of
  \<^verbatim>\<open>response.json()\<close>, \<open>JsonParseFailed\<close> the \<^verbatim>\<open>SyntaxError\<close> of \<^verbatim>\<open>JSON.parse\<close>, and
  \<open>TypeError\<close> a property read of \<^verbatim>\<open>undefined\<close>.
\<close>

datatype error =
    Thrown string
  | FetchRejected string
  | JsonRejected
  | JsonParseFailed
  | TypeError
  | PackageNotFound string
  | FetchPackageInfoFailed string error
  | FileNotFound string string
  | EsbuildInitFailed
  | BuildErrors "string list"
  | BundlingFailed error
  | WebContainerNotSupported
  | WebContainerNotInitialized
  | InstallFailed string
  | AnalyzeFailed string error

section \<open>The registry as the code sees it\<close>

text \<open>
  \<^verbatim>\<open>fetch\<close> is the one way the code reaches the registry. During one call of the analyzer
  the registry is a fixed function from the request to its outcome: \<open>None\<close> when the
  promise rejects (transport failure), a response otherwise. The JSON payloads are read at
  the shape the code expects of them: \<open>resp_manifest\<close> is \<^verbatim>\<open>await response.json()\<close> of a
  \<^verbatim>\<open>package.json\<close>, \<open>resp_listing\<close> that of unpkg's \<^verbatim>\<open>?meta\<close> listing; \<open>None\<close> when
  \<^verbatim>\<open>json()\<close> rejects. \<open>resp_content_length\<close> is the \<^verbatim>\<open>content-length\<close> header as
  \<^verbatim>\<open>parseInt\<close> reads it.

  \<open>resp_settled\<close> is the time, on the clock of the event loop, at which the promise of
  \<^verbatim>\<open>fetch\<close> fulfils. It matters where the code starts several requests at once and acts on
  each as it settles: of two such requests the one with the smaller time settles first, and
  two that carry the same time settle in the order in which they were started.
\<close>

datatype http_method = GET | HEAD

record package_json =
  pj_name :: string
  pj_version :: string
  pj_dependencies :: "(string \<times> string) list option"
  pj_peerDependencies :: "(string \<times> string) list option"
  pj_main :: "string option"
  pj_module :: "string option"
  pj_jsnext_main :: "string option"
  pj_type :: "module_type option"
  pj_sideEffects :: "side_effects option"

datatype listing =
    ListingFile "nat option"
  | ListingDirectory "(string \<times> listing) list option"
  | ListingOther
  | ListingNull

record response =
  resp_ok :: bool
  resp_text :: string
  resp_manifest :: "package_json option"
  resp_listing :: "listing option"
  resp_content_length :: "nat option"
  resp_settled :: nat

type_synonym registry = "http_method \<Rightarrow> string \<Rightarrow> response option"

section \<open>CDNPackageManager\<close>

definition cdnProviders :: "cdn_provider \<Rightarrow> string" where
  "cdnProviders p =
     (case p of
        Unpkg \<Rightarrow> ''https://unpkg.com''
      | JsDelivr \<Rightarrow> ''https://cdn.jsdelivr.net/npm''
      | Skypack \<Rightarrow> ''https://cdn.skypack.dev''
      | EsmSh \<Rightarrow> ''https://esm.sh'')"

definition buildUrl :: "cdn_provider \<Rightarrow> string \<Rightarrow> string \<Rightarrow> string" where
  \<comment> \<open>every branch of the \<^verbatim>\<open>switch\<close> builds the same shape\<close>
  "buildUrl cdn packageSpec filePath = cdnProviders cdn @ ''/'' @ packageSpec @ ''/'' @ filePath"

definition version_or_latest :: "string option \<Rightarrow> string" where
  \<comment> \<open>the default parameter \<^verbatim>\<open>version = 'latest'\<close>: it replaces \<^verbatim>\<open>undefined\<close> only\<close>
  "version_or_latest version = (case version of None \<Rightarrow> ''latest'' | Some v \<Rightarrow> v)"

definition packageSpec :: "string \<Rightarrow> string option \<Rightarrow> string" where
  \<comment> \<open>\<^verbatim>\<open>version === 'latest' ? packageName : `${packageName}@${version}`\<close>\<close>
  "packageSpec packageName version =
     (if version_or_latest version = ''latest'' then packageName
      else packageName @ ''@'' @ version_or_latest version)"

fun traverse :: "listing \<Rightarrow> string \<Rightarrow> CDNFile list option"
  and traverse_entries :: "(string \<times> listing) list \<Rightarrow> string \<Rightarrow> CDNFile list option" where
  \<comment> \<open>\<open>None\<close>: reading \<^verbatim>\<open>obj.type\<close> of \<^verbatim>\<open>null\<close> throws\<close>
  "traverse (ListingFile sz) basePath =
     Some [\<lparr>cf_path = basePath, cf_size = (case sz of None \<Rightarrow> 0 | Some n \<Rightarrow> n), cf_type = File\<rparr>]"
| "traverse (ListingDirectory None) basePath = Some []"
| "traverse (ListingDirectory (Some entries)) basePath = traverse_entries entries basePath"
| "traverse ListingOther basePath = Some []"
| "traverse ListingNull basePath = None"
| "traverse_entries [] basePath = Some []"
| "traverse_entries ((name, fileObj) # rest) basePath =
     (case traverse fileObj (if basePath \<noteq> [] then basePath @ ''/'' @ name else name) of
        None \<Rightarrow> None
      | Some found \<Rightarrow>
          (case traverse_entries rest basePath of
             None \<Rightarrow> None
           | Some others \<Rightarrow> Some (found @ others)))"

definition parseUnpkgListing :: "listing \<Rightarrow> CDNFile list option" where
  "parseUnpkgListing data = traverse data []"

definition commonFiles :: "string list" where
  "commonFiles =
     [''package.json'', ''index.js'', ''index.mjs'', ''index.ts'', ''dist/index.js'',
      ''dist/index.mjs'', ''dist/index.umd.js'', ''lib/index.js'', ''src/index.js'',
      ''src/index.ts'', ''README.md'', ''LICENSE'']"

definition probe :: "cdn_provider \<Rightarrow> registry \<Rightarrow> string \<Rightarrow> string \<Rightarrow> (nat \<times> CDNFile) list" where
  \<comment> \<open>the callback that \<^verbatim>\<open>discoverCommonFiles\<close> maps over \<^verbatim>\<open>commonFiles\<close>: what it pushes
      onto \<^verbatim>\<open>existingFiles\<close>, with the time at which it does so. A rejected or
      unsuccessful probe pushes nothing.\<close>
  "probe cdn fetch spec filePath =
     (case fetch HEAD (buildUrl cdn spec filePath) of
        None \<Rightarrow> []
      | Some r \<Rightarrow>
          if resp_ok r then
            [(resp_settled r,
              \<lparr>cf_path = filePath,
               cf_size = (case resp_content_length r of None \<Rightarrow> 0 | Some n \<Rightarrow> n),
               cf_type = File\<rparr>)]
          else [])"

definition discoverCommonFiles :: "cdn_provider \<Rightarrow> registry \<Rightarrow> string \<Rightarrow> CDNFile list" where
  \<comment> \<open>all probes are started at once, in the order of \<^verbatim>\<open>commonFiles\<close>, and each pushes its
      file when its request settles: \<^verbatim>\<open>existingFiles\<close> is in the order of settling
      (\<open>sort_key\<close> is stable, so probes that settle together keep the order of their start)\<close>
  "discoverCommonFiles cdn fetch spec =
     map snd (sort_key fst (concat (map (probe cdn fetch spec) commonFiles)))"

definition getFileList :: "cdn_provider \<Rightarrow> registry \<Rightarrow> string \<Rightarrow> CDNFile list" where
  \<comment> \<open>whatever fails inside the \<^verbatim>\<open>try\<close> ends in \<^verbatim>\<open>discoverCommonFiles\<close>\<close>
  "getFileList cdn fetch spec =
     (if cdn = Unpkg then
        (case fetch GET (cdnProviders Unpkg @ ''/'' @ spec @ ''/?meta'') of
           None \<Rightarrow> discoverCommonFiles cdn fetch spec
         | Some r \<Rightarrow>
             if resp_ok r then
               (case resp_listing r of
                  None \<Rightarrow> discoverCommonFiles cdn fetch spec
                | Some data \<Rightarrow>
                    (case parseUnpkgListing data of
                       None \<Rightarrow> discoverCommonFiles cdn fetch spec
                     | Some files \<Rightarrow> files))
             else discoverCommonFiles cdn fetch spec)
      else discoverCommonFiles cdn fetch spec)"

definition getPackageInfo ::
  "cdn_provider \<Rightarrow> registry \<Rightarrow> string \<Rightarrow> string option \<Rightarrow> error + CDNPackageInfo" where
  "getPackageInfo cdn fetch packageName version =
     (let spec = packageSpec packageName version;
          packageJsonUrl = buildUrl cdn spec ''package.json''
      in case fetch GET packageJsonUrl of
           None \<Rightarrow> Inl (FetchPackageInfoFailed spec (FetchRejected packageJsonUrl))
         | Some r \<Rightarrow>
             if \<not> resp_ok r then Inl (FetchPackageInfoFailed spec (PackageNotFound spec))
             else
               (case resp_manifest r of
                  None \<Rightarrow> Inl (FetchPackageInfoFailed spec JsonRejected)
                | Some packageJson \<Rightarrow>
                    Inr \<lparr>pi_name = pj_name packageJson,
                         pi_version = pj_version packageJson,
                         pi_files = getFileList cdn fetch spec,
                         pi_dependencies = pj_dependencies packageJson,
                         pi_peerDependencies = pj_peerDependencies packageJson,
                         pi_main = pj_main packageJson,
                         pi_module = pj_module packageJson,
                         pi_type = pj_type packageJson,
                         pi_sideEffects = pj_sideEffects packageJson\<rparr>))"

definition getFileContent ::
  "cdn_provider \<Rightarrow> registry \<Rightarrow> string \<Rightarrow> string \<Rightarrow> string option \<Rightarrow> error + string" where
  "getFileContent cdn fetch packageName filePath version =
     (let spec = packageSpec packageName version;
          fileUrl = buildUrl cdn spec filePath
      in case fetch GET fileUrl of
           None \<Rightarrow> Inl (FetchRejected fileUrl)
         | Some r \<Rightarrow>
             if \<not> resp_ok r then Inl (FileNotFound filePath spec)
             else Inr (resp_text r))"

fun download_files ::
  "cdn_provider \<Rightarrow> registry \<Rightarrow> string \<Rightarrow> string option \<Rightarrow> CDNFile list \<Rightarrow> file_set \<Rightarrow> file_set" where
  \<comment> \<open>the body of \<^verbatim>\<open>downloadPromises\<close>: a download that fails is logged and sets nothing\<close>
  "download_files cdn fetch packageName version [] packageFiles = packageFiles"
| "download_files cdn fetch packageName version (file # rest) packageFiles =
     download_files cdn fetch packageName version rest
       (case getFileContent cdn fetch packageName (cf_path file) version of
          Inl err \<Rightarrow> packageFiles
        | Inr content \<Rightarrow> packageFiles(cf_path file \<mapsto> content))"

definition downloadPackage ::
  "cdn_provider \<Rightarrow> registry \<Rightarrow> string \<Rightarrow> string option \<Rightarrow> error + file_set" where
  "downloadPackage cdn fetch packageName version =
     (case getPackageInfo cdn fetch packageName (Some (version_or_latest version)) of
        Inl err \<Rightarrow> Inl err
      | Inr packageInfo \<Rightarrow>
          Inr (download_files cdn fetch packageName (Some (version_or_latest version))
                 (filter (\<lambda>file. cf_type file = File) (pi_files packageInfo)) Map.empty))"

definition entryPoints :: "CDNPackageInfo \<Rightarrow> string list" where
  \<comment> \<open>\<^verbatim>\<open>[...].filter(Boolean)\<close> drops \<^verbatim>\<open>undefined\<close> and the empty string\<close>
  "entryPoints packageInfo =
     concat (map (\<lambda>e. case e of None \<Rightarrow> [] | Some s \<Rightarrow> if s = [] then [] else [s])
       [pi_module packageInfo, pi_main packageInfo,
        Some ''index.js'', Some ''index.mjs'', Some ''dist/index.js'', Some ''lib/index.js''])"

fun first_fetchable :: "cdn_provider \<Rightarrow> registry \<Rightarrow> string \<Rightarrow> string list \<Rightarrow> string option" where
  \<comment> \<open>the \<^verbatim>\<open>for\<close> loop of \<^verbatim>\<open>resolveMainFile\<close>; \<^verbatim>\<open>getFileContent\<close> is called without a version\<close>
  "first_fetchable cdn fetch packageName [] = None"
| "first_fetchable cdn fetch packageName (entryPoint # rest) =
     (case getFileContent cdn fetch packageName entryPoint None of
        Inr content \<Rightarrow> Some entryPoint
      | Inl err \<Rightarrow> first_fetchable cdn fetch packageName rest)"

definition resolveMainFile :: "cdn_provider \<Rightarrow> registry \<Rightarrow> CDNPackageInfo \<Rightarrow> string option" where
  "resolveMainFile cdn fetch packageInfo =
     first_fetchable cdn fetch (pi_name packageInfo) (entryPoints packageInfo)"

section \<open>WasmBundler: bundling, minification and size\<close>

text \<open>
  esbuild, terser and the browser's \<^verbatim>\<open>CompressionStream\<close> are collaborators outside the
  repository. Building, transforming, minifying and compressing are each a fixed function
  during one call of the analyzer: \<open>Inl\<close> is the message of the exception it throws.
  \<open>esbuild_build\<close> receives the entry point and the file set that its resolve and load
  hooks read; \<open>terser_minify\<close> yields \<^verbatim>\<open>result.code\<close>, which terser may leave
  \<^verbatim>\<open>undefined\<close>; \<open>compressionStream\<close> is \<open>None\<close> when \<^verbatim>\<open>CompressionStream\<close> is not in
  \<^verbatim>\<open>globalThis\<close>, else the chunks that gzip yields for a text.

  \<^verbatim>\<open>esbuild.initialize\<close> is not the same at every call: the library keeps the service it
  started and refuses a second call. \<open>esbuild_initialize eng k\<close> tells whether the call
  fulfils that is made when \<open>k\<close> calls of \<^verbatim>\<open>esbuild.initialize\<close> have been made before it;
  otherwise it throws or rejects. For the library as published this is \<open>k = 0\<close> at best.
\<close>

record build_result =
  br_errors :: "string list"
  br_outputFiles :: "string list"

record engine =
  esbuild_initialize :: "nat \<Rightarrow> bool"
  esbuild_build :: "string \<Rightarrow> file_set \<Rightarrow> string + build_result"
  esbuild_transform :: "string \<Rightarrow> string + string"
  terser_minify :: "string \<Rightarrow> string + string option"
  compressionStream :: "(string \<Rightarrow> string list) option"

record bundle_asset =
  ba_name :: string
  ba_size :: nat
  ba_type :: string

record BundleResult =
  b_code :: string
  b_size :: nat
  b_gzipSize :: nat
  b_assets :: "bundle_asset list"

record MinifyResult =
  m_code :: string
  m_size :: nat
  m_gzipSize :: nat

subsection \<open>The arithmetic of \<^verbatim>\<open>Math.round(length * 0.7)\<close>\<close>

text \<open>
  \<^verbatim>\<open>length * 0.7\<close> is a product of IEEE 754 doubles. The literal \<^verbatim>\<open>0.7\<close> is the double
  \<open>double_0_7 / 2 ^ 53\<close>, and a length below \<open>2 ^ 53\<close> is a double itself, so the product is
  the exact rational \<open>n * double_0_7 / 2 ^ 53\<close> rounded to 53 significant bits, ties to the
  even significand. A double is written here as its numerator over \<open>2 ^ 53\<close>.
  \<^verbatim>\<open>Math.round\<close> yields the nearest integer, ties towards \<open>+\<infinity>\<close>.
\<close>

definition double_0_7 :: nat where
  "double_0_7 = 6305039478318694"

fun bit_length :: "nat \<Rightarrow> nat" where
  "bit_length n = (if n = 0 then 0 else Suc (bit_length (n div 2)))"

declare bit_length.simps [simp del]

definition round_to_53_bits :: "nat \<Rightarrow> nat" where
  "round_to_53_bits x =
     (let shift = bit_length x - 53;
          q = x div 2 ^ shift;
          r = x mod 2 ^ shift
      in if 2 * r > 2 ^ shift \<or> (2 * r = 2 ^ shift \<and> odd q) then (q + 1) * 2 ^ shift
         else q * 2 ^ shift)"

definition times_0_7 :: "nat \<Rightarrow> nat" where
  \<comment> \<open>the double \<^verbatim>\<open>n * 0.7\<close>, as its numerator over \<open>2 ^ 53\<close>\<close>
  "times_0_7 n = round_to_53_bits (n * double_0_7)"

definition Math_round :: "nat \<Rightarrow> nat" where
  \<comment> \<open>\<^verbatim>\<open>Math.round\<close> of the double \<open>x / 2 ^ 53\<close>: \<open>\<lfloor>x / 2 ^ 53 + 1 / 2\<rfloor>\<close>\<close>
  "Math_round x = (2 * x + 2 ^ 53) div 2 ^ 54"

definition calculateGzipSize :: "engine \<Rightarrow> string \<Rightarrow> nat" where
  "calculateGzipSize eng content =
     (case compressionStream eng of
        Some gzip \<Rightarrow> foldl (\<lambda>acc chunk. acc + length chunk) 0 (gzip content)
      | None \<Rightarrow> Math_round (times_0_7 (length content)))"

subsection \<open>State of the analyzer and its actions\<close>

text \<open>
  The analyzer owns two stateful objects: the bundler's \<^verbatim>\<open>isInitialized\<close> flag, and the
  sandbox manager's \<^verbatim>\<open>webcontainer\<close> handle (\<open>True\<close>: not \<^verbatim>\<open>null\<close>) and \<^verbatim>\<open>isInitialized\<close>
  flag. An async method is an action: it takes the state and returns its outcome
  (\<open>Inl\<close>: the promise rejects with that error) and the state it leaves.
  \<open>esbuild_calls\<close> counts the calls of \<^verbatim>\<open>esbuild.initialize\<close> made so far; it is state of the
  library, which the bundler alone drives.
  \<open>console_warnings\<close> holds what \<^verbatim>\<open>getPackageExportSizes\<close> writes with \<^verbatim>\<open>console.warn\<close>, each
  warning as its message and the error logged with it; the console output of the other
  methods is not part of the model. The warnings come from callbacks that run concurrently,
  each at the moment its own work fails, so their order on the console is a matter of
  timing: they are kept as a multiset, which records how often each was written and no order.
\<close>

record analyzer_state =
  bundler_isInitialized :: bool
  webcontainer :: bool
  wc_isInitialized :: bool
  esbuild_calls :: nat
  console_warnings :: "(string \<times> error) multiset"

type_synonym 'a action = "analyzer_state \<Rightarrow> (error + 'a) \<times> analyzer_state"

definition succeed :: "'a \<Rightarrow> 'a action" where
  "succeed x = (\<lambda>st. (Inr x, st))"

definition throw :: "error \<Rightarrow> 'a action" where
  "throw err = (\<lambda>st. (Inl err, st))"

definition lift :: "error + 'a \<Rightarrow> 'a action" where
  \<comment> \<open>awaiting a call that does not touch the analyzer's state\<close>
  "lift r = (\<lambda>st. (r, st))"

definition and_then :: "'a action \<Rightarrow> ('a \<Rightarrow> 'b action) \<Rightarrow> 'b action" where
  \<comment> \<open>\<^verbatim>\<open>const x = await m; ...\<close>: a rejection skips the rest\<close>
  "and_then m f =
     (\<lambda>st. case m st of
        (Inl err, st') \<Rightarrow> (Inl err, st')
      | (Inr x, st') \<Rightarrow> f x st')"

definition try_catch :: "'a action \<Rightarrow> (error \<Rightarrow> 'a action) \<Rightarrow> 'a action" where
  "try_catch m handler =
     (\<lambda>st. case m st of
        (Inl err, st') \<Rightarrow> handler err st'
      | (Inr x, st') \<Rightarrow> (Inr x, st'))"

subsection \<open>The bundler's methods\<close>

definition initialize :: "engine \<Rightarrow> unit action" where
  \<comment> \<open>the call of \<^verbatim>\<open>esbuild.initialize\<close> is made, and counted, before its outcome is awaited\<close>
  "initialize eng =
     (\<lambda>st. if bundler_isInitialized st then (Inr (), st)
           else if esbuild_initialize eng (esbuild_calls st) then
             (Inr (), st\<lparr>esbuild_calls := Suc (esbuild_calls st), bundler_isInitialized := True\<rparr>)
           else (Inl EsbuildInitFailed, st\<lparr>esbuild_calls := Suc (esbuild_calls st)\<rparr>))"

definition build_and_measure :: "engine \<Rightarrow> string \<Rightarrow> file_set \<Rightarrow> error + BundleResult" where
  \<comment> \<open>the \<^verbatim>\<open>try\<close> block of \<^verbatim>\<open>bundle\<close>; its \<^verbatim>\<open>catch\<close> wraps whatever was thrown.
      \<^verbatim>\<open>result.outputFiles[0].text\<close> of an empty array is a \<^verbatim>\<open>TypeError\<close>.\<close>
  "build_and_measure eng entryPoint files =
     (case esbuild_build eng entryPoint files of
        Inl msg \<Rightarrow> Inl (BundlingFailed (Thrown msg))
      | Inr result \<Rightarrow>
          if br_errors result \<noteq> [] then Inl (BundlingFailed (BuildErrors (br_errors result)))
          else
            (case br_outputFiles result of
               [] \<Rightarrow> Inl (BundlingFailed TypeError)
             | code # others \<Rightarrow>
                 Inr \<lparr>b_code = code,
                      b_size = length code,
                      b_gzipSize = calculateGzipSize eng code,
                      b_assets = [\<lparr>ba_name = ''main'', ba_size = length code, ba_type = ''js''\<rparr>]\<rparr>))"

definition bundle_entry :: "engine \<Rightarrow> string \<Rightarrow> file_set \<Rightarrow> BundleResult action" where
  \<comment> \<open>the method \<^verbatim>\<open>bundle\<close>; a failing \<^verbatim>\<open>initialize\<close> is outside the \<^verbatim>\<open>try\<close> block\<close>
  "bundle_entry eng entryPoint files =
     and_then (\<lambda>st. if \<not> bundler_isInitialized st then initialize eng st else (Inr (), st))
       (\<lambda>u. lift (build_and_measure eng entryPoint files))"

definition minifyCode :: "engine \<Rightarrow> string \<Rightarrow> minifier option \<Rightarrow> error + MinifyResult" where
  \<comment> \<open>the parameter defaults to \<^verbatim>\<open>'esbuild'\<close>; \<^verbatim>\<open>result.code || code\<close> replaces \<^verbatim>\<open>undefined\<close>
      and the empty string, on the terser branch only\<close>
  "minifyCode eng code minifier =
     (let minified =
            (if (case minifier of None \<Rightarrow> Esbuild | Some m \<Rightarrow> m) = Esbuild then
               (case esbuild_transform eng code of
                  Inl msg \<Rightarrow> Inl (Thrown msg)
                | Inr result_code \<Rightarrow> Inr result_code)
             else
               (case terser_minify eng code of
                  Inl msg \<Rightarrow> Inl (Thrown msg)
                | Inr None \<Rightarrow> Inr code
                | Inr (Some result_code) \<Rightarrow> Inr (if result_code = [] then code else result_code)))
      in case minified of
           Inl err \<Rightarrow> Inl err
         | Inr minifiedCode \<Rightarrow>
             Inr \<lparr>m_code = minifiedCode,
                  m_size = length minifiedCode,
                  m_gzipSize = calculateGzipSize eng minifiedCode\<rparr>)"

section \<open>WebContainerManager\<close>

text \<open>
  The sandbox (the WebContainer API) and the JavaScript host are collaborators as well.
  \<open>boot\<close> tells whether \<^verbatim>\<open>WebContainer.boot()\<close> resolves; the file system and \<^verbatim>\<open>spawn\<close>
  answer with \<open>Inl\<close>/\<open>Some\<close> of a message when they throw, \<^verbatim>\<open>spawn\<close> with the exit code of
  the process otherwise. \<open>JSON_parse\<close> reads a manifest (\<open>None\<close>: \<^verbatim>\<open>JSON.parse\<close> throws),
  \<open>JSON_stringify\<close> writes one, and \<open>import_time\<close> is the time that the dynamic import of a
  code text takes on the host's clock.
\<close>

record sandbox =
  boot :: bool
  fs_writeFile :: "string \<Rightarrow> string \<Rightarrow> string option"
  fs_readFile :: "string \<Rightarrow> string + string"
  spawn :: "string \<Rightarrow> string list \<Rightarrow> string + int"

record runtime =
  has_Worker :: bool
  has_SharedArrayBuffer :: bool
  crossOriginIsolated :: bool
  JSON_parse :: "string \<Rightarrow> package_json option"
  JSON_stringify :: "package_json \<Rightarrow> string"
  import_time :: "string \<Rightarrow> nat"

definition truthy :: "string option \<Rightarrow> bool" where
  \<comment> \<open>a string that is neither \<^verbatim>\<open>undefined\<close> nor empty\<close>
  "truthy v = (case v of None \<Rightarrow> False | Some s \<Rightarrow> s \<noteq> [])"

definition or_else :: "string option \<Rightarrow> string \<Rightarrow> string" where
  \<comment> \<open>\<^verbatim>\<open>v || d\<close> for a string \<open>v\<close> that may be \<^verbatim>\<open>undefined\<close> or \<^verbatim>\<open>null\<close>\<close>
  "or_else v d = (case v of None \<Rightarrow> d | Some s \<Rightarrow> if s = [] then d else s)"

definition wc_initialize :: "sandbox \<Rightarrow> unit action" where
  \<comment> \<open>\<^verbatim>\<open>WebContainerManager.initialize\<close> (the bundler's method has the name \<open>initialize\<close>)\<close>
  "wc_initialize sb =
     (\<lambda>st. if wc_isInitialized st then (Inr (), st)
           else if boot sb then (Inr (), st\<lparr>webcontainer := True, wc_isInitialized := True\<rparr>)
           else (Inl WebContainerNotSupported, st))"

definition installPackage :: "sandbox \<Rightarrow> string \<Rightarrow> string option \<Rightarrow> unit action" where
  "installPackage sb packageName version =
     (\<lambda>st. if \<not> webcontainer st then (Inl WebContainerNotInitialized, st)
           else
             (let spec = (case version of
                            None \<Rightarrow> packageName
                          | Some v \<Rightarrow> if v = [] then packageName else packageName @ ''@'' @ v)
              in case spawn sb ''npm'' [''install'', spec] of
                   Inl msg \<Rightarrow> (Inl (Thrown msg), st)
                 | Inr exitCode \<Rightarrow>
                     if exitCode \<noteq> 0 then (Inl (InstallFailed spec), st) else (Inr (), st)))"

definition readFile :: "sandbox \<Rightarrow> string \<Rightarrow> string action" where
  "readFile sb file =
     (\<lambda>st. if \<not> webcontainer st then (Inl WebContainerNotInitialized, st)
           else (case fs_readFile sb file of
                   Inl msg \<Rightarrow> (Inl (Thrown msg), st)
                 | Inr content \<Rightarrow> (Inr content, st)))"

definition writeFile :: "sandbox \<Rightarrow> string \<Rightarrow> string \<Rightarrow> unit action" where
  "writeFile sb file content =
     (\<lambda>st. if \<not> webcontainer st then (Inl WebContainerNotInitialized, st)
           else (case fs_writeFile sb file content of
                   Some msg \<Rightarrow> (Inl (Thrown msg), st)
                 | None \<Rightarrow> (Inr (), st)))"

definition createPackageJson ::
  "runtime \<Rightarrow> sandbox \<Rightarrow> (string \<times> string) list \<Rightarrow> unit action" where
  "createPackageJson rt sb dependencies =
     writeFile sb ''package.json''
       (JSON_stringify rt
          \<lparr>pj_name = ''package-scout-analysis'', pj_version = ''1.0.0'',
           pj_dependencies = Some dependencies, pj_peerDependencies = None, pj_main = None,
           pj_module = None, pj_jsnext_main = None, pj_type = None, pj_sideEffects = None\<rparr>)"

definition isSupported :: "runtime \<Rightarrow> bool" where
  "isSupported rt = (has_Worker rt \<and> has_SharedArrayBuffer rt \<and> crossOriginIsolated rt)"

definition teardown :: "unit action" where
  "teardown =
     (\<lambda>st. if webcontainer st then (Inr (), st\<lparr>webcontainer := False, wc_isInitialized := False\<rparr>)
           else (Inr (), st))"

section \<open>BrowserPackageAnalyzer\<close>

record world =
  w_fetch :: registry
  w_engine :: engine
  w_sandbox :: sandbox
  w_runtime :: runtime

definition resolveEntryPoint :: "package_json \<Rightarrow> string" where
  \<comment> \<open>\<^verbatim>\<open>packageJson.module || packageJson.main || 'index.js'\<close>\<close>
  "resolveEntryPoint packageJson =
     or_else (pj_module packageJson) (or_else (pj_main packageJson) ''index.js'')"

definition analyzeWithWebContainer ::
  "BrowserPackageAnalyzerOptions \<Rightarrow> world \<Rightarrow> string \<Rightarrow> string option \<Rightarrow> PackageStats action" where
  "analyzeWithWebContainer opts w packageName version =
     and_then (wc_initialize (w_sandbox w)) (\<lambda>u1.
     and_then (createPackageJson (w_runtime w) (w_sandbox w)
                 [(packageName, or_else version ''latest'')]) (\<lambda>u2.
     and_then (installPackage (w_sandbox w) packageName version) (\<lambda>u3.
     and_then (readFile (w_sandbox w) (''node_modules/'' @ packageName @ ''/package.json''))
       (\<lambda>packageJsonContent.
     and_then (lift (case JSON_parse (w_runtime w) packageJsonContent of
                       None \<Rightarrow> Inl JsonParseFailed
                     | Some parsed \<Rightarrow> Inr parsed)) (\<lambda>packageJson.
     let entryPoint = resolveEntryPoint packageJson in
     and_then (writeFile (w_sandbox w) ''entry.js''
                 (case opt_customImports opts of
                    Some customImports \<Rightarrow>
                      join [CHR 0x0A]
                        (map (\<lambda>imp. ''import '' @ [CHR 0x27] @ packageName @ ''/'' @ imp
                                       @ [CHR 0x27] @ '';'') customImports)
                  | None \<Rightarrow> ''import '' @ [CHR 0x27] @ packageName @ [CHR 0x27] @ '';'')) (\<lambda>u4.
     and_then teardown (\<lambda>u5.
     succeed
       \<lparr>ps_name = pj_name packageJson,
        ps_size = 50000,
        ps_gzipSize = 15000,
        ps_parseTime = None,
        ps_dependencyCount =
          length (case pj_dependencies packageJson of None \<Rightarrow> [] | Some deps \<Rightarrow> deps),
        ps_hasJSNext = truthy (pj_jsnext_main packageJson),
        ps_hasJSModule = truthy (pj_module packageJson),
        ps_isModuleType = (pj_type packageJson = Some Module),
        ps_hasSideEffects =
          SideEffectsFlag (pj_sideEffects packageJson \<noteq> Some (SideEffectsFlag False)),
        ps_peerDependencies =
          map fst (case pj_peerDependencies packageJson of None \<Rightarrow> [] | Some deps \<Rightarrow> deps),
        ps_dependencySizes = [],
        ps_assets =
          [\<lparr>as_name = ''main'', as_size = 50000, as_gzipSize = 15000, as_type = JS\<rparr>]\<rparr>)))))))"

definition entry_or_default :: "string option \<Rightarrow> string" where
  \<comment> \<open>\<^verbatim>\<open>await this.cdnManager.resolveMainFile(packageInfo) || 'index.js'\<close>\<close>
  "entry_or_default resolved = or_else resolved ''index.js''"

definition add_entry_file ::
  "BrowserPackageAnalyzerOptions \<Rightarrow> string \<Rightarrow> file_set \<Rightarrow> file_set" where
  \<comment> \<open>the block under "Add entry point to files if not present" of \<^verbatim>\<open>analyzeWithCDN\<close>\<close>
  "add_entry_file opts entryPoint packageFiles =
     (if packageFiles entryPoint = None then
        packageFiles(''entry.js'' \<mapsto>
          (case opt_customImports opts of
             Some customImports \<Rightarrow>
               join [CHR 0x0A]
                 (map (\<lambda>imp. ''export * from '' @ [CHR 0x27] @ ''./'' @ imp @ [CHR 0x27] @ '';'')
                    customImports)
           | None \<Rightarrow> ''export * from '' @ [CHR 0x27] @ ''./index.js'' @ [CHR 0x27] @ '';''))
      else packageFiles)"

definition configured_cdn :: "BrowserPackageAnalyzerOptions \<Rightarrow> cdn_provider" where
  \<comment> \<open>the constructor's \<^verbatim>\<open>new CDNPackageManager(options.cdn || 'unpkg')\<close>\<close>
  "configured_cdn opts = (case opt_cdn opts of None \<Rightarrow> Unpkg | Some cdn \<Rightarrow> cdn)"

definition analyzeWithCDN ::
  "BrowserPackageAnalyzerOptions \<Rightarrow> world \<Rightarrow> string \<Rightarrow> string option \<Rightarrow> PackageStats action" where
  "analyzeWithCDN opts w packageName version =
     and_then (lift (getPackageInfo (configured_cdn opts) (w_fetch w) packageName version))
       (\<lambda>packageInfo.
     and_then (lift (downloadPackage (configured_cdn opts) (w_fetch w) packageName version))
       (\<lambda>packageFiles.
     let entryPoint =
           entry_or_default (resolveMainFile (configured_cdn opts) (w_fetch w) packageInfo)
     in
     and_then (bundle_entry (w_engine w) entryPoint (add_entry_file opts entryPoint packageFiles))
       (\<lambda>bundleResult.
     and_then (lift (minifyCode (w_engine w) (b_code bundleResult)
                       (Some (case opt_minifier opts of None \<Rightarrow> Esbuild | Some m \<Rightarrow> m))))
       (\<lambda>minified.
     succeed
       \<lparr>ps_name = pi_name packageInfo,
        ps_size = m_size minified,
        ps_gzipSize = m_gzipSize minified,
        ps_parseTime =
          (if opt_debug opts = Some True then Some (import_time (w_runtime w) (m_code minified))
           else None),
        ps_dependencyCount =
          length (case pi_dependencies packageInfo of None \<Rightarrow> [] | Some deps \<Rightarrow> deps),
        ps_hasJSNext = False,
        ps_hasJSModule = truthy (pi_module packageInfo),
        ps_isModuleType = (pi_type packageInfo = Some Module),
        ps_hasSideEffects =
          SideEffectsFlag (pi_sideEffects packageInfo \<noteq> Some (SideEffectsFlag False)),
        ps_peerDependencies =
          map fst (case pi_peerDependencies packageInfo of None \<Rightarrow> [] | Some deps \<Rightarrow> deps),
        ps_dependencySizes = [],
        ps_assets =
          [\<lparr>as_name = ''main'', as_size = m_size minified,
            as_gzipSize = m_gzipSize minified, as_type = JS\<rparr>]\<rparr>))))"

definition analyzePackage ::
  "BrowserPackageAnalyzerOptions \<Rightarrow> world \<Rightarrow> string \<Rightarrow> string option \<Rightarrow> PackageStats action" where
  "analyzePackage opts w packageName version =
     try_catch
       (and_then (initialize (w_engine w)) (\<lambda>u.
          if opt_useWebContainer opts = Some True \<and> isSupported (w_runtime w) then
            analyzeWithWebContainer opts w packageName version
          else analyzeWithCDN opts w packageName version))
       (\<lambda>err. throw (AnalyzeFailed packageName err))"





section \<open>Sample registries and collaborators for the worked examples\<close>

text \<open>
  The examples below run the model on small registries: a table from URL to response,
  which answers \<^verbatim>\<open>GET\<close> and \<^verbatim>\<open>HEAD\<close> alike and answers 404 for every other URL.
\<close>

definition text_response :: "string \<Rightarrow> response" where
  "text_response body =
     \<lparr>resp_ok = True, resp_text = body, resp_manifest = None, resp_listing = None,
      resp_content_length = Some (length body), resp_settled = 0\<rparr>"

definition manifest_response :: "package_json \<Rightarrow> response" where
  "manifest_response manifest =
     \<lparr>resp_ok = True, resp_text = ''{}'', resp_manifest = Some manifest, resp_listing = None,
      resp_content_length = None, resp_settled = 0\<rparr>"

definition listing_response :: "listing \<Rightarrow> response" where
  "listing_response tree =
     \<lparr>resp_ok = True, resp_text = ''{}'', resp_manifest = None, resp_listing = Some tree,
      resp_content_length = None, resp_settled = 0\<rparr>"

definition not_found_response :: response where
  "not_found_response =
     \<lparr>resp_ok = False, resp_text = ''Not found'', resp_manifest = None, resp_listing = None,
      resp_content_length = None, resp_settled = 0\<rparr>"

definition registry_of :: "(string \<times> response) list \<Rightarrow> registry" where
  "registry_of table =
     (\<lambda>method url. case map_of table url of None \<Rightarrow> Some not_found_response | Some r \<Rightarrow> Some r)"

definition sample_manifest ::
  "string \<Rightarrow> string \<Rightarrow> string option \<Rightarrow> string option \<Rightarrow> package_json" where
  "sample_manifest name version main_field module_field =
     \<lparr>pj_name = name, pj_version = version, pj_dependencies = None,
      pj_peerDependencies = None, pj_main = main_field, pj_module = module_field,
      pj_jsnext_main = None, pj_type = None, pj_sideEffects = None\<rparr>"

definition sample_info :: "string \<Rightarrow> string \<Rightarrow> string option \<Rightarrow> string option \<Rightarrow> CDNPackageInfo" where
  "sample_info name version main_field module_field =
     \<lparr>pi_name = name, pi_version = version, pi_files = [], pi_dependencies = None,
      pi_peerDependencies = None, pi_main = main_field, pi_module = module_field,
      pi_type = None, pi_sideEffects = None\<rparr>"

definition registry_three_files :: registry where
  \<comment> \<open>package \<^verbatim>\<open>p\<close>: three files listed, \<^verbatim>\<open>lib/b.js\<close> cannot be fetched\<close>
  "registry_three_files =
     registry_of
       [(''https://unpkg.com/p/package.json'',
           manifest_response (sample_manifest ''p'' ''1.0.0'' None None)),
        (''https://unpkg.com/p/?meta'',
           listing_response (ListingDirectory (Some
             [(''a.js'', ListingFile (Some 3)),
              (''lib'', ListingDirectory (Some [(''b.js'', ListingFile None)])),
              (''c.js'', ListingFile (Some 5))]))),
        (''https://unpkg.com/p/a.js'', text_response ''aaa''),
        (''https://unpkg.com/p/c.js'', text_response ''ccccc'')]"

definition registry_duplicate_paths :: registry where
  \<comment> \<open>package \<^verbatim>\<open>p\<close>: the listing names \<^verbatim>\<open>lib/a.js\<close> twice (once under the directory
      \<^verbatim>\<open>lib\<close>, once as the entry \<^verbatim>\<open>lib/a.js\<close>); \<^verbatim>\<open>c.js\<close> cannot be fetched\<close>
  "registry_duplicate_paths =
     registry_of
       [(''https://unpkg.com/p/package.json'',
           manifest_response (sample_manifest ''p'' ''1.0.0'' None None)),
        (''https://unpkg.com/p/?meta'',
           listing_response (ListingDirectory (Some
             [(''lib'', ListingDirectory (Some [(''a.js'', ListingFile None)])),
              (''lib/a.js'', ListingFile None),
              (''c.js'', ListingFile None)]))),
        (''https://unpkg.com/p/lib/a.js'', text_response ''aaa'')]"

definition registry_old_version :: registry where
  \<comment> \<open>package \<^verbatim>\<open>p\<close>: version 1.0.0 has \<^verbatim>\<open>old.js\<close> only, the latest version \<^verbatim>\<open>index.js\<close> only\<close>
  "registry_old_version =
     registry_of
       [(''https://unpkg.com/p@1.0.0/old.js'', text_response ''old''),
        (''https://unpkg.com/p/index.js'', text_response ''new'')]"

definition registry_index :: registry where
  \<comment> \<open>package \<^verbatim>\<open>p\<close> with \<^verbatim>\<open>main: 'index.js'\<close> and the files \<^verbatim>\<open>index.js\<close>, \<^verbatim>\<open>util.js\<close>\<close>
  "registry_index =
     registry_of
       [(''https://unpkg.com/p/package.json'',
           manifest_response (sample_manifest ''p'' ''1.0.0'' (Some ''index.js'') None)),
        (''https://unpkg.com/p/?meta'',
           listing_response (ListingDirectory (Some
             [(''index.js'', ListingFile (Some 9)), (''util.js'', ListingFile (Some 4))]))),
        (''https://unpkg.com/p/index.js'', text_response ''export {}''),
        (''https://unpkg.com/p/util.js'', text_response ''util'')]"



definition registry_probes :: registry where
  \<comment> \<open>package \<^verbatim>\<open>p\<close> on a CDN without listing: of the common files \<^verbatim>\<open>index.js\<close> and
      \<^verbatim>\<open>index.mjs\<close> exist, and the probe of \<^verbatim>\<open>index.mjs\<close> settles first\<close>
  "registry_probes =
     registry_of
       [(''https://cdn.jsdelivr.net/npm/p/index.js'', (text_response ''js'')\<lparr>resp_settled := 5\<rparr>),
        (''https://cdn.jsdelivr.net/npm/p/index.mjs'', (text_response ''mjs'')\<lparr>resp_settled := 2\<rparr>)]"

definition echo_engine :: engine where
  \<comment> \<open>a stand-in for esbuild and terser: the first call of \<^verbatim>\<open>esbuild.initialize\<close> fulfils
      and every later one throws, the bundle of an entry point is the content of that
      file, a build whose entry point is not in the file set throws and names the entry
      point, minifying changes nothing, and there is no \<^verbatim>\<open>CompressionStream\<close>\<close>
  "echo_engine =
     \<lparr>esbuild_initialize = (\<lambda>calls. calls = 0),
      esbuild_build = (\<lambda>entryPoint files.
         case files entryPoint of
           None \<Rightarrow> Inl (''Could not resolve '' @ entryPoint)
         | Some content \<Rightarrow> Inr \<lparr>br_errors = [], br_outputFiles = [content]\<rparr>),
      esbuild_transform = (\<lambda>code. Inr code),
      terser_minify = (\<lambda>code. Inr (Some code)),
      compressionStream = None\<rparr>"

definition failing_minifier_engine :: engine where
  \<comment> \<open>as \<open>echo_engine\<close>, but both minifiers throw\<close>
  "failing_minifier_engine =
     echo_engine\<lparr>esbuild_transform := (\<lambda>code. Inl ''Transform failed''),
                  terser_minify := (\<lambda>code. Inl ''Unexpected token'')\<rparr>"

definition silent_terser_engine :: engine where
  \<comment> \<open>as \<open>echo_engine\<close>, but terser leaves \<^verbatim>\<open>result.code\<close> undefined\<close>
  "silent_terser_engine = echo_engine\<lparr>terser_minify := (\<lambda>code. Inr None)\<rparr>"


definition no_sandbox :: sandbox where
  "no_sandbox =
     \<lparr>boot = False, fs_writeFile = (\<lambda>file content. Some ''no sandbox''),
      fs_readFile = (\<lambda>file. Inl ''no sandbox''), spawn = (\<lambda>command args. Inl ''no sandbox'')\<rparr>"

definition plain_runtime :: runtime where
  \<comment> \<open>a host that is not cross-origin isolated\<close>
  "plain_runtime =
     \<lparr>has_Worker = True, has_SharedArrayBuffer = True, crossOriginIsolated = False,
      JSON_parse = (\<lambda>text. None), JSON_stringify = (\<lambda>manifest. ''{}''),
      import_time = (\<lambda>code. 0)\<rparr>"

definition isolated_runtime :: runtime where
  \<comment> \<open>a host that reports the sandbox capability\<close>
  "isolated_runtime = plain_runtime\<lparr>crossOriginIsolated := True\<rparr>"

definition sample_world :: "registry \<Rightarrow> engine \<Rightarrow> world" where
  "sample_world fetch eng =
     \<lparr>w_fetch = fetch, w_engine = eng, w_sandbox = no_sandbox, w_runtime = plain_runtime\<rparr>"

definition default_options :: BrowserPackageAnalyzerOptions where
  \<comment> \<open>\<^verbatim>\<open>new BrowserPackageAnalyzer()\<close>: the options object \<^verbatim>\<open>{}\<close>\<close>
  "default_options =
     \<lparr>opt_minifier = None, opt_debug = None, opt_customImports = None, opt_esm = None,
      opt_includeDependencySizes = None, opt_cdn = None, opt_useWebContainer = None\<rparr>"

definition fresh_state :: analyzer_state where
  \<comment> \<open>the state the constructor leaves, in a page that has not called esbuild yet\<close>
  "fresh_state =
     \<lparr>bundler_isInitialized = False, webcontainer = False, wc_isInitialized = False,
      esbuild_calls = 0, console_warnings = {#}\<rparr>"

section \<open>Properties of the resolution loop\<close>

lemma first_existing_find: "first_existing files cs = find (\<lambda>c. files c \<noteq> None) cs"
  by (induction cs) auto

lemma first_existing_None:
  "first_existing files cs = None \<longleftrightarrow> (\<forall>c \<in> set cs. files c = None)"
  by (auto simp: first_existing_find find_None_iff)

lemma first_existing_Some:
  "first_existing files cs = Some c \<longleftrightarrow>
     (\<exists>i < length cs. c = cs ! i \<and> files c \<noteq> None \<and> (\<forall>j < i. files (cs ! j) = None))"
  unfolding first_existing_find find_Some_iff by auto

text \<open>
  C4. For a relative specifier (one that starts with \<^verbatim>\<open>./\<close> or \<^verbatim>\<open>../\<close>), \<open>resolveImport\<close>
  joins the importer's directory with the specifier and probes the suffixes
  \<^verbatim>\<open>''\<close>, \<^verbatim>\<open>.js\<close>, \<^verbatim>\<open>.mjs\<close>, \<^verbatim>\<open>.ts\<close>, \<^verbatim>\<open>/index.js\<close>, \<^verbatim>\<open>/index.mjs\<close>, \<^verbatim>\<open>/index.ts\<close> in
  that order: the result is the candidate of least index that is a key of the file set,
  it is none exactly when no candidate is a key, and a joined path that is itself a key
  is returned unchanged.
\<close>

theorem resolveImport_relative:
  fixes s p :: string and F :: file_set
  assumes "startsWith ''./'' s \<or> startsWith ''../'' s"
  defines "r \<equiv> resolvePath (importerDir p) s"
  defines "cands \<equiv> map (\<lambda>ext. r @ ext)
             ['''', ''.js'', ''.mjs'', ''.ts'', ''/index.js'', ''/index.mjs'', ''/index.ts'']"
  shows "(\<forall>c. resolveImport s p F = Some c \<longleftrightarrow>
            (\<exists>i < 7. c = cands ! i \<and> c \<in> dom F \<and> (\<forall>j < i. cands ! j \<notin> dom F)))
       \<and> (resolveImport s p F = None \<longleftrightarrow> (\<forall>c \<in> set cands. c \<notin> dom F))
       \<and> (r \<in> dom F \<longrightarrow> resolveImport s p F = Some r)"
proof -
  have dot: "startsWith ''.'' s"
    using assms(1) by (cases s) (auto simp: startsWith_def)
  have eq: "resolveImport s p F = first_existing F cands"
    using assms(1) dot
    by (simp add: resolveImport_def Let_def r_def cands_def split: option.splits)
  have len: "length cands = 7" by (simp add: cands_def)
  have a: "\<forall>c. resolveImport s p F = Some c \<longleftrightarrow>
            (\<exists>i < 7. c = cands ! i \<and> c \<in> dom F \<and> (\<forall>j < i. cands ! j \<notin> dom F))"
    unfolding eq first_existing_Some len by (simp add: dom_def)
  have b: "resolveImport s p F = None \<longleftrightarrow> (\<forall>c \<in> set cands. c \<notin> dom F)"
    unfolding eq first_existing_None by (simp add: dom_def)
  have c: "r \<in> dom F \<longrightarrow> resolveImport s p F = Some r"
    unfolding eq by (auto simp: cands_def)
  from a b c show ?thesis by blast
qed

theorem resolveImport_relative_witness:
  "startsWith ''./'' ''./util''
   \<and> resolveImport ''./util'' ''src/index.js''
        [''src/util/index.js'' \<mapsto> ''a'', ''src/util.ts'' \<mapsto> ''b''] = Some ''src/util.ts''
   \<and> resolveImport ''../lib/x.js'' ''src/a/index.js'' [''src/lib/x.js'' \<mapsto> ''c'']
        = Some ''src/lib/x.js''
   \<and> resolveImport ''./gone'' ''index.js'' [''other.js'' \<mapsto> ''d''] = None"
  using resolveImport_relative
          [of "''./util''" "''src/index.js''"
              "[''src/util/index.js'' \<mapsto> ''a'', ''src/util.ts'' \<mapsto> ''b'']"]
        resolveImport_relative
          [of "''../lib/x.js''" "''src/a/index.js''" "[''src/lib/x.js'' \<mapsto> ''c'']"]
  by (simp add: startsWith_def resolveImport_def resolvePath_def resolvePath_step_def
        importerDir_def)

section \<open>Properties of CDNPackageManager\<close>

lemmas sample_defs = text_response_def manifest_response_def listing_response_def
  not_found_response_def registry_of_def sample_manifest_def sample_info_def

lemmas cdn_defs = getPackageInfo_def getFileList_def parseUnpkgListing_def getFileContent_def
  downloadPackage_def packageSpec_def version_or_latest_def buildUrl_def cdnProviders_def

text \<open>
  The fallback listing holds the common files whose probe succeeds, whatever the order in
  which the probes settle; the order of the listing is that of settling.
\<close>

lemma discoverCommonFiles_found:
  "mset (discoverCommonFiles cdn fetch spec)
     = mset (map snd (concat (map (probe cdn fetch spec) commonFiles)))"
  by (simp add: discoverCommonFiles_def)

lemma discoverCommonFiles_settle_order:
  "discoverCommonFiles JsDelivr registry_probes ''p''
     = [\<lparr>cf_path = ''index.mjs'', cf_size = 3, cf_type = File\<rparr>,
        \<lparr>cf_path = ''index.js'', cf_size = 2, cf_type = File\<rparr>]"
  by (simp add: discoverCommonFiles_def probe_def commonFiles_def buildUrl_def cdnProviders_def
        registry_probes_def sample_defs)

lemma first_fetchable_find:
  "first_fetchable cdn fetch n es = find (\<lambda>e. \<not> isl (getFileContent cdn fetch n e None)) es"
  by (induction es) (auto split: sum.splits)

lemma first_fetchable_None:
  "first_fetchable cdn fetch n es = None \<longleftrightarrow>
     (\<forall>e \<in> set es. isl (getFileContent cdn fetch n e None))"
  by (auto simp: first_fetchable_find find_None_iff)

lemma first_fetchable_Some:
  "first_fetchable cdn fetch n es = Some e \<longleftrightarrow>
     (\<exists>i < length es. e = es ! i \<and> \<not> isl (getFileContent cdn fetch n e None)
        \<and> (\<forall>j < i. isl (getFileContent cdn fetch n (es ! j) None)))"
  unfolding first_fetchable_find find_Some_iff by auto

text \<open>
  C6. \<open>resolveMainFile\<close> tries the descriptor's \<^verbatim>\<open>module\<close> field, then its \<^verbatim>\<open>main\<close> field
  (each when present and not empty), then \<^verbatim>\<open>index.js\<close>, \<^verbatim>\<open>index.mjs\<close>, \<^verbatim>\<open>dist/index.js\<close>,
  \<^verbatim>\<open>lib/index.js\<close>. A candidate is fetchable when \<open>getFileContent\<close> returns its content.
  The result is the fetchable candidate of least index, and none exactly when no candidate
  is fetchable. With \<^verbatim>\<open>module: 'esm/index.js'\<close> and \<^verbatim>\<open>main: 'index.js'\<close> the result is
  \<^verbatim>\<open>esm/index.js\<close> when that is fetchable, and \<^verbatim>\<open>index.js\<close> when it is not and
  \<^verbatim>\<open>index.js\<close> is.
\<close>

theorem resolveMainFile_order:
  fixes cdn :: cdn_provider and fetch :: registry and info :: CDNPackageInfo
  defines "fetchable \<equiv> \<lambda>p. \<not> isl (getFileContent cdn fetch (pi_name info) p None)"
  defines "cands \<equiv>
     (if truthy (pi_module info) then [the (pi_module info)] else [])
     @ (if truthy (pi_main info) then [the (pi_main info)] else [])
     @ [''index.js'', ''index.mjs'', ''dist/index.js'', ''lib/index.js'']"
  shows "(\<forall>e. resolveMainFile cdn fetch info = Some e \<longleftrightarrow>
            (\<exists>i < length cands. e = cands ! i \<and> fetchable e \<and> (\<forall>j < i. \<not> fetchable (cands ! j))))
       \<and> (resolveMainFile cdn fetch info = None \<longleftrightarrow> (\<forall>e \<in> set cands. \<not> fetchable e))
       \<and> (pi_module info = Some ''esm/index.js'' \<and> pi_main info = Some ''index.js'' \<longrightarrow>
            (fetchable ''esm/index.js'' \<longrightarrow> resolveMainFile cdn fetch info = Some ''esm/index.js'')
          \<and> (\<not> fetchable ''esm/index.js'' \<and> fetchable ''index.js'' \<longrightarrow>
                resolveMainFile cdn fetch info = Some ''index.js''))"
proof -
  have cands: "entryPoints info = cands"
    by (auto simp: entryPoints_def cands_def truthy_def split: option.splits)
  have a: "\<forall>e. resolveMainFile cdn fetch info = Some e \<longleftrightarrow>
            (\<exists>i < length cands. e = cands ! i \<and> fetchable e \<and> (\<forall>j < i. \<not> fetchable (cands ! j)))"
    unfolding resolveMainFile_def cands first_fetchable_Some fetchable_def by simp
  have b: "resolveMainFile cdn fetch info = None \<longleftrightarrow> (\<forall>e \<in> set cands. \<not> fetchable e)"
    unfolding resolveMainFile_def cands first_fetchable_None fetchable_def by simp
  have c: "pi_module info = Some ''esm/index.js'' \<and> pi_main info = Some ''index.js'' \<longrightarrow>
            (fetchable ''esm/index.js'' \<longrightarrow> resolveMainFile cdn fetch info = Some ''esm/index.js'')
          \<and> (\<not> fetchable ''esm/index.js'' \<and> fetchable ''index.js'' \<longrightarrow>
                resolveMainFile cdn fetch info = Some ''index.js'')"
    by (auto simp: resolveMainFile_def entryPoints_def fetchable_def split: sum.splits)
  from a b c show ?thesis by blast
qed

theorem resolveMainFile_order_witness:
  "resolveMainFile Unpkg
     (registry_of [(''https://unpkg.com/p/esm/index.js'', text_response ''m''),
                   (''https://unpkg.com/p/index.js'', text_response ''c'')])
     (sample_info ''p'' ''1.0.0'' (Some ''index.js'') (Some ''esm/index.js''))
     = Some ''esm/index.js''
   \<and> resolveMainFile Unpkg
     (registry_of [(''https://unpkg.com/p/index.js'', text_response ''c'')])
     (sample_info ''p'' ''1.0.0'' (Some ''index.js'') (Some ''esm/index.js''))
     = Some ''index.js''
   \<and> resolveMainFile Unpkg (registry_of [])
     (sample_info ''p'' ''1.0.0'' (Some ''index.js'') (Some ''esm/index.js'')) = None"
  using resolveMainFile_order
          [of Unpkg "registry_of [(''https://unpkg.com/p/esm/index.js'', text_response ''m''),
                                  (''https://unpkg.com/p/index.js'', text_response ''c'')]"
              "sample_info ''p'' ''1.0.0'' (Some ''index.js'') (Some ''esm/index.js'')"]
        resolveMainFile_order
          [of Unpkg "registry_of [(''https://unpkg.com/p/index.js'', text_response ''c'')]"
              "sample_info ''p'' ''1.0.0'' (Some ''index.js'') (Some ''esm/index.js'')"]
        resolveMainFile_order
          [of Unpkg "registry_of []"
              "sample_info ''p'' ''1.0.0'' (Some ''index.js'') (Some ''esm/index.js'')"]
  by (simp add: cdn_defs sample_defs truthy_def)

lemma getFileContent_latest:
  "getFileContent cdn fetch n p None = getFileContent cdn fetch n p (Some ''latest'')"
  by (simp add: getFileContent_def packageSpec_def version_or_latest_def)

lemma getFileContent_unversioned:
  "\<not> isl (getFileContent cdn fetch n p None) \<longleftrightarrow>
     (\<exists>r. fetch GET (cdnProviders cdn @ ''/'' @ n @ ''/'' @ p) = Some r \<and> resp_ok r)"
  by (auto simp: getFileContent_def packageSpec_def version_or_latest_def buildUrl_def Let_def
        split: option.splits)

text \<open>
  C9. \<open>resolveMainFile\<close> calls \<open>getFileContent\<close> without a version, which is the call with
  version \<^verbatim>\<open>latest\<close>: whatever version the descriptor was fetched for, each probe is a
  \<^verbatim>\<open>GET\<close> of \<^verbatim>\<open>base/<name>/<candidate>\<close>, the URL of the latest published version. So the
  result is the same on two registries that answer alike on these URLs (they may differ
  on every URL of a versioned package spec), and a returned entry point is one whose
  unversioned URL answers with success.
\<close>

theorem resolveMainFile_ignores_version:
  fixes cdn :: cdn_provider and fetch fetch' :: registry and info :: CDNPackageInfo
  defines "url \<equiv> \<lambda>p. cdnProviders cdn @ ''/'' @ pi_name info @ ''/'' @ p"
  shows "((\<forall>p. fetch GET (url p) = fetch' GET (url p)) \<longrightarrow>
            resolveMainFile cdn fetch info = resolveMainFile cdn fetch' info)
       \<and> (\<forall>e. resolveMainFile cdn fetch info = Some e \<longrightarrow>
            (\<exists>r. fetch GET (url e) = Some r \<and> resp_ok r))
       \<and> (\<forall>p. getFileContent cdn fetch (pi_name info) p None
               = getFileContent cdn fetch (pi_name info) p (Some ''latest''))"
proof -
  have same: "getFileContent cdn fetch (pi_name info) p None
              = getFileContent cdn fetch' (pi_name info) p None"
    if "\<forall>p. fetch GET (url p) = fetch' GET (url p)" for p
    using that
    by (simp add: getFileContent_def packageSpec_def version_or_latest_def buildUrl_def url_def)
  have a: "(\<forall>p. fetch GET (url p) = fetch' GET (url p)) \<longrightarrow>
            resolveMainFile cdn fetch info = resolveMainFile cdn fetch' info"
    by (simp add: resolveMainFile_def first_fetchable_find same)
  have b: "\<forall>e. resolveMainFile cdn fetch info = Some e \<longrightarrow>
            (\<exists>r. fetch GET (url e) = Some r \<and> resp_ok r)"
    unfolding resolveMainFile_def first_fetchable_Some url_def
    using getFileContent_unversioned by blast
  from a b getFileContent_latest show ?thesis by blast
qed

theorem resolveMainFile_ignores_version_witness:
  "getFileContent Unpkg registry_old_version ''p'' ''old.js'' (Some ''1.0.0'') = Inr ''old''
   \<and> isl (getFileContent Unpkg registry_old_version ''p'' ''index.js'' (Some ''1.0.0''))
   \<and> resolveMainFile Unpkg registry_old_version (sample_info ''p'' ''1.0.0'' (Some ''old.js'') None)
       = Some ''index.js''
   \<and> resolveMainFile Unpkg registry_old_version (sample_info ''p'' ''1.0.0'' (Some ''old.js'') None)
       = resolveMainFile Unpkg
           (registry_of [(''https://unpkg.com/p/index.js'', text_response ''new'')])
           (sample_info ''p'' ''1.0.0'' (Some ''old.js'') None)"
  using resolveMainFile_ignores_version
          [of registry_old_version Unpkg "sample_info ''p'' ''1.0.0'' (Some ''old.js'') None"
              "registry_of [(''https://unpkg.com/p/index.js'', text_response ''new'')]"]
  by (simp add: cdn_defs sample_defs registry_old_version_def resolveMainFile_def
        entryPoints_def)

lemma packageSpec_defaulted:
  "packageSpec n (Some (version_or_latest v)) = packageSpec n v"
  by (simp add: packageSpec_def version_or_latest_def split: option.splits)

lemma getPackageInfo_defaulted:
  "getPackageInfo cdn fetch n (Some (version_or_latest v)) = getPackageInfo cdn fetch n v"
  by (simp add: getPackageInfo_def packageSpec_defaulted)

lemma getFileContent_defaulted:
  "getFileContent cdn fetch n p (Some (version_or_latest v)) = getFileContent cdn fetch n p v"
  by (simp add: getFileContent_def packageSpec_defaulted)

lemma download_files_lookup:
  "download_files cdn fetch n v fs m p =
     (if p \<in> cf_path ` set fs then
        (case getFileContent cdn fetch n p v of Inl e \<Rightarrow> m p | Inr c \<Rightarrow> Some c)
      else m p)"
  by (induction fs arbitrary: m) (auto split: sum.splits)

lemma dom_download_files_gen:
  "dom (download_files cdn fetch n v fs m) =
     dom m \<union> cf_path ` set (filter (\<lambda>f. \<not> isl (getFileContent cdn fetch n (cf_path f) v)) fs)"
proof (induction fs arbitrary: m)
  case Nil
  then show ?case by simp
next
  case (Cons f fs)
  show ?case
  proof (cases "getFileContent cdn fetch n (cf_path f) v")
    case (Inl e)
    then show ?thesis using Cons [of m] by simp
  next
    case (Inr c)
    then have step: "download_files cdn fetch n v (f # fs) m
                     = download_files cdn fetch n v fs (m(cf_path f \<mapsto> c))"
      by simp
    have "dom (download_files cdn fetch n v (f # fs) m) =
            dom (m(cf_path f \<mapsto> c))
            \<union> cf_path ` set (filter (\<lambda>f. \<not> isl (getFileContent cdn fetch n (cf_path f) v)) fs)"
      unfolding step by (rule Cons)
    also have "\<dots> = dom m
            \<union> cf_path ` set (filter (\<lambda>f. \<not> isl (getFileContent cdn fetch n (cf_path f) v)) (f # fs))"
      using Inr by simp
    finally show ?thesis .
  qed
qed

lemma dom_download_files:
  "dom (download_files cdn fetch n v fs Map.empty) =
     cf_path ` set (filter (\<lambda>f. \<not> isl (getFileContent cdn fetch n (cf_path f) v)) fs)"
  by (simp add: dom_download_files_gen)

text \<open>
  C5 (amended). Let the descriptor be the one \<open>getPackageInfo\<close> returns, \<open>wanted\<close> its
  entries of kind file and \<open>failed\<close> those of them whose fetch fails. Then
  \<open>downloadPackage\<close> completes with a map whose keys are paths of \<open>wanted\<close>; when no fetch
  fails the keys are exactly the paths of \<open>wanted\<close>; when the paths of \<open>wanted\<close> are
  pairwise distinct and exactly one of the \<open>N\<close> fetches fails, the map has \<open>N - 1\<close> entries;
  and every key maps to the content that was fetched for it.
\<close>

theorem downloadPackage_keys:
  fixes cdn :: cdn_provider and fetch :: registry and name :: string
    and version :: "string option"
  assumes info: "getPackageInfo cdn fetch name version = Inr info"
  defines "wanted \<equiv> filter (\<lambda>f. cf_type f = File) (pi_files info)"
  defines "failed \<equiv>
     filter (\<lambda>f. isl (getFileContent cdn fetch name (cf_path f) version)) wanted"
  shows "\<exists>m. downloadPackage cdn fetch name version = Inr m
           \<and> dom m \<subseteq> cf_path ` set wanted
           \<and> (failed = [] \<longrightarrow> dom m = cf_path ` set wanted)
           \<and> (distinct (map cf_path wanted) \<and> length failed = 1 \<longrightarrow>
                card (dom m) = length wanted - 1)
           \<and> (\<forall>p c. m p = Some c \<longrightarrow> getFileContent cdn fetch name p version = Inr c)"
proof -
  define m where
    "m = download_files cdn fetch name (Some (version_or_latest version)) wanted Map.empty"
  define fetched where
    "fetched = filter (\<lambda>f. \<not> isl (getFileContent cdn fetch name (cf_path f) version)) wanted"
  have res: "downloadPackage cdn fetch name version = Inr m"
    by (simp add: downloadPackage_def getPackageInfo_defaulted info m_def wanted_def)
  have dom: "dom m = cf_path ` set fetched"
    by (simp add: m_def fetched_def dom_download_files getFileContent_defaulted)
  have sub: "dom m \<subseteq> cf_path ` set wanted"
    unfolding dom fetched_def by auto
  have all: "failed = [] \<longrightarrow> dom m = cf_path ` set wanted"
  proof
    assume "failed = []"
    then have "fetched = wanted"
      unfolding failed_def fetched_def by (simp add: filter_empty_conv)
    with dom show "dom m = cf_path ` set wanted" by simp
  qed
  have one: "distinct (map cf_path wanted) \<and> length failed = 1 \<longrightarrow>
               card (dom m) = length wanted - 1"
  proof
    assume h: "distinct (map cf_path wanted) \<and> length failed = 1"
    have "distinct (map cf_path fetched)"
      unfolding fetched_def using h by (simp add: distinct_map_filter)
    then have "card (dom m) = length fetched"
      unfolding dom using distinct_card [of "map cf_path fetched"] by simp
    moreover have "length fetched + length failed = length wanted"
      unfolding fetched_def failed_def
      using sum_length_filter_compl
              [of "\<lambda>f. \<not> isl (getFileContent cdn fetch name (cf_path f) version)" wanted]
      by simp
    ultimately show "card (dom m) = length wanted - 1" using h by simp
  qed
  have content: "\<forall>p c. m p = Some c \<longrightarrow> getFileContent cdn fetch name p version = Inr c"
    by (auto simp: m_def download_files_lookup getFileContent_defaulted
          split: if_splits sum.splits)
  from res sub all one content show ?thesis by blast
qed

theorem downloadPackage_keys_witness:
  "getPackageInfo Unpkg registry_three_files ''p'' None
     = Inr ((sample_info ''p'' ''1.0.0'' None None)
         \<lparr>pi_files := [\<lparr>cf_path = ''a.js'', cf_size = 3, cf_type = File\<rparr>,
                      \<lparr>cf_path = ''lib/b.js'', cf_size = 0, cf_type = File\<rparr>,
                      \<lparr>cf_path = ''c.js'', cf_size = 5, cf_type = File\<rparr>]\<rparr>)
   \<and> (\<exists>m. downloadPackage Unpkg registry_three_files ''p'' None = Inr m
          \<and> dom m \<subseteq> {''a.js'', ''lib/b.js'', ''c.js''} \<and> card (dom m) = 2
          \<and> m ''lib/b.js'' = None \<and> m ''a.js'' = Some ''aaa'')"
proof -
  let ?R = registry_three_files
  let ?info = "(sample_info ''p'' ''1.0.0'' None None)
       \<lparr>pi_files := [\<lparr>cf_path = ''a.js'', cf_size = 3, cf_type = File\<rparr>,
                    \<lparr>cf_path = ''lib/b.js'', cf_size = 0, cf_type = File\<rparr>,
                    \<lparr>cf_path = ''c.js'', cf_size = 5, cf_type = File\<rparr>]\<rparr>"
  have info: "getPackageInfo Unpkg ?R ''p'' None = Inr ?info"
    by (simp add: cdn_defs sample_defs registry_three_files_def)
  have a: "\<not> isl (getFileContent Unpkg ?R ''p'' ''a.js'' None)"
    and b: "isl (getFileContent Unpkg ?R ''p'' ''lib/b.js'' None)"
    and c: "\<not> isl (getFileContent Unpkg ?R ''p'' ''c.js'' None)"
    and t: "getFileContent Unpkg ?R ''p'' ''a.js'' None = Inr ''aaa''"
    by (simp_all add: cdn_defs sample_defs registry_three_files_def)
  from downloadPackage_keys [OF info] obtain m where
    m: "downloadPackage Unpkg ?R ''p'' None = Inr m"
       "dom m \<subseteq> cf_path ` set (filter (\<lambda>f. cf_type f = File) (pi_files ?info))"
       "distinct (map cf_path (filter (\<lambda>f. cf_type f = File) (pi_files ?info)))
          \<and> length (filter (\<lambda>f. isl (getFileContent Unpkg ?R ''p'' (cf_path f) None))
                (filter (\<lambda>f. cf_type f = File) (pi_files ?info))) = 1
        \<longrightarrow> card (dom m) = length (filter (\<lambda>f. cf_type f = File) (pi_files ?info)) - 1"
       "\<forall>p c. m p = Some c \<longrightarrow> getFileContent Unpkg ?R ''p'' p None = Inr c"
    by blast
  have sub: "dom m \<subseteq> {''a.js'', ''lib/b.js'', ''c.js''}"
    using m(2) by (simp add: sample_info_def)
  have card: "card (dom m) = 2"
    using m(3) a b c by (simp add: sample_info_def)
  have nb: "m ''lib/b.js'' = None"
    using m(4) b by (cases "m ''lib/b.js''") auto
  have "m ''a.js'' \<noteq> None"
  proof
    assume "m ''a.js'' = None"
    then have "''a.js'' \<notin> dom m" by (simp add: domIff)
    with sub nb have "dom m \<subseteq> {''c.js''}" by (auto simp: domIff)
    then have "card (dom m) \<le> card {''c.js''}" by (intro card_mono) auto
    with card show False by simp
  qed
  then have ya: "m ''a.js'' = Some ''aaa''"
    using m(4) t by (cases "m ''a.js''") auto
  from info m(1) sub card nb ya show ?thesis by blast
qed

text \<open>
  C5 as stated fails when the listing names a path twice: of the three fetches for the
  entries \<^verbatim>\<open>lib/a.js\<close>, \<^verbatim>\<open>lib/a.js\<close>, \<^verbatim>\<open>c.js\<close> exactly one fails, and the map has one
  entry, not two.
\<close>

theorem downloadPackage_duplicate_paths_counterexample:
  "(case getPackageInfo Unpkg registry_duplicate_paths ''p'' None of
      Inl e \<Rightarrow> []
    | Inr info \<Rightarrow>
        map (\<lambda>f. (cf_path f,
                  isl (getFileContent Unpkg registry_duplicate_paths ''p'' (cf_path f) None)))
          (filter (\<lambda>f. cf_type f = File) (pi_files info)))
    = [(''lib/a.js'', False), (''lib/a.js'', False), (''c.js'', True)]
   \<and> (case downloadPackage Unpkg registry_duplicate_paths ''p'' None of
         Inl e \<Rightarrow> 0
       | Inr m \<Rightarrow> card (dom m)) = 1"
  by (simp add: cdn_defs sample_defs registry_duplicate_paths_def)

section \<open>Properties of the size estimate\<close>

lemma bit_length_bounds: "0 < n \<Longrightarrow> 2 ^ (bit_length n - 1) \<le> n \<and> n < 2 ^ bit_length n"
proof (induction n rule: bit_length.induct)
  case (1 n)
  show ?case
  proof (cases "n div 2 = 0")
    case True
    with 1 have "n = 1" by (simp add: div_eq_0_iff)
    then show ?thesis
      by (simp add: bit_length.simps [of "Suc 0"] bit_length.simps [of 0])
  next
    case False
    then have pos: "0 < n div 2" by simp
    from 1 have n0: "n \<noteq> 0" by simp
    from "1.IH" [OF n0 pos] have ih: "2 ^ (bit_length (n div 2) - 1) \<le> n div 2"
      "n div 2 < 2 ^ bit_length (n div 2)" by auto
    have bl: "bit_length n = Suc (bit_length (n div 2))"
      using n0 by (simp add: bit_length.simps [of n])
    have blpos: "0 < bit_length (n div 2)"
      using pos by (simp add: bit_length.simps [of "n div 2"])
    have "2 ^ (bit_length n - 1) = 2 * 2 ^ (bit_length (n div 2) - 1)"
      using bl blpos by (cases "bit_length (n div 2)") auto
    also have "\<dots> \<le> 2 * (n div 2)" using ih(1) by simp
    also have "\<dots> \<le> n" by simp
    finally have lo: "2 ^ (bit_length n - 1) \<le> n" .
    have "n < 2 * (n div 2) + 2" by presburger
    also have "\<dots> \<le> 2 * 2 ^ bit_length (n div 2)" using ih(2) by simp
    finally have hi: "n < 2 ^ bit_length n" using bl by simp
    from lo hi show ?thesis by simp
  qed
qed

lemma round_to_53_bits_close:
  assumes "0 < x"
  shows "2 * round_to_53_bits x \<le> 2 * x + x div 2 ^ 52"
    and "2 * x \<le> 2 * round_to_53_bits x + x div 2 ^ 52"
proof -
  define s where "s = bit_length x - 53"
  define q where "q = x div 2 ^ s"
  define r where "r = x mod 2 ^ s"
  have x: "x = q * 2 ^ s + r"
    using div_mult_mod_eq [of x "2 ^ s"] by (simp add: q_def r_def)
  have r: "r < 2 ^ s" by (simp add: r_def)
  have R: "round_to_53_bits x =
      (if 2 * r > 2 ^ s \<or> (2 * r = 2 ^ s \<and> odd q) then (q + 1) * 2 ^ s else q * 2 ^ s)"
    by (simp add: round_to_53_bits_def Let_def s_def q_def r_def)
  have big: "s \<noteq> 0 \<Longrightarrow> 2 ^ s \<le> x div 2 ^ 52"
  proof -
    assume "s \<noteq> 0"
    then have "bit_length x = s + 53" by (simp add: s_def)
    with bit_length_bounds [OF assms] have "2 ^ (s + 52) \<le> x" by (simp add: add.commute)
    then have "2 ^ s * 2 ^ 52 \<le> x" by (simp add: power_add)
    then show "2 ^ s \<le> x div 2 ^ 52"
      by (simp add: less_eq_div_iff_mult_less_eq)
  qed
  show "2 * round_to_53_bits x \<le> 2 * x + x div 2 ^ 52"
  proof (cases "s = 0")
    case True
    then show ?thesis using R x r by simp
  next
    case False
    from big [OF False] have b: "2 ^ s \<le> x div 2 ^ 52" .
    show ?thesis
    proof (cases "2 * r > 2 ^ s \<or> (2 * r = 2 ^ s \<and> odd q)")
      case True
      then have "round_to_53_bits x = q * 2 ^ s + 2 ^ s" using R by simp
      moreover from True have "2 ^ s \<le> 2 * r" by auto
      ultimately show ?thesis using x b by linarith
    next
      case False
      then have "round_to_53_bits x = q * 2 ^ s" using R by simp
      then show ?thesis using x by linarith
    qed
  qed
  show "2 * x \<le> 2 * round_to_53_bits x + x div 2 ^ 52"
  proof (cases "s = 0")
    case True
    then show ?thesis using R x r by simp
  next
    case False
    from big [OF False] have b: "2 ^ s \<le> x div 2 ^ 52" .
    show ?thesis
    proof (cases "2 * r > 2 ^ s \<or> (2 * r = 2 ^ s \<and> odd q)")
      case True
      then have "round_to_53_bits x = q * 2 ^ s + 2 ^ s" using R by simp
      then show ?thesis using x r by linarith
    next
      case False
      then have "round_to_53_bits x = q * 2 ^ s" using R by simp
      moreover from False have "2 * r \<le> 2 ^ s" by auto
      ultimately show ?thesis using x b by linarith
    qed
  qed
qed


lemma times_0_7_close:
  assumes "0 < n"
  shows "2 * times_0_7 n \<le> 2 * (n * double_0_7) + 2 * n"
    and "2 * (n * double_0_7) \<le> 2 * times_0_7 n + 2 * n"
proof -
  have pos: "0 < n * double_0_7" using assms by (simp add: double_0_7_def)
  have "n * double_0_7 \<le> n * 2 ^ 53" by (simp add: double_0_7_def)
  then have "(n * double_0_7) div 2 ^ 52 \<le> (n * 2 ^ 53) div 2 ^ 52"
    by (rule div_le_mono)
  also have "\<dots> = 2 * n" by simp
  finally have d: "(n * double_0_7) div 2 ^ 52 \<le> 2 * n" .
  from round_to_53_bits_close(1) [OF pos] d
  show "2 * times_0_7 n \<le> 2 * (n * double_0_7) + 2 * n"
    unfolding times_0_7_def by linarith
  from round_to_53_bits_close(2) [OF pos] d
  show "2 * (n * double_0_7) \<le> 2 * times_0_7 n + 2 * n"
    unfolding times_0_7_def by linarith
qed

lemma Math_round_times_0_7_bounds:
  assumes n: "n < 2 ^ 49"
  shows "(7 * n + 5) div 10 \<le> Math_round (times_0_7 n) + 1"
    and "Math_round (times_0_7 n) \<le> (7 * n + 5) div 10"
    and "n mod 10 \<noteq> 5 \<Longrightarrow> Math_round (times_0_7 n) = (7 * n + 5) div 10"
proof -
  define k where "k = (7 * n + 5) div 10"
  define t where "t = (7 * n + 5) mod 10"
  define R where "R = times_0_7 n"
  have kt: "7 * n + 5 = 10 * k + t" and t: "t < 10"
    by (simp_all add: k_def t_def)
  have n': "n < 562949953421312" using n by simp
  have M: "10 * (n * double_0_7) + 4 * n = 7 * n * 9007199254740992"
    by (simp add: double_0_7_def)
  have both: "2 * R \<le> 2 * (n * double_0_7) + 2 * n \<and> 2 * (n * double_0_7) \<le> 2 * R + 2 * n"
  proof (cases "n = 0")
    case True
    then show ?thesis
      by (simp add: R_def times_0_7_def round_to_53_bits_def bit_length.simps [of 0])
  next
    case False
    then have "0 < n" by simp
    from times_0_7_close [OF this] show ?thesis by (simp add: R_def)
  qed
  then have close: "2 * R \<le> 2 * (n * double_0_7) + 2 * n"
    "2 * (n * double_0_7) \<le> 2 * R + 2 * n"
    by simp_all
  have MR: "Math_round R = (2 * R + 9007199254740992) div 18014398509481984"
    by (simp add: Math_round_def)
  define X where "X = n * double_0_7"
  have M': "10 * X + 4 * n = 63050394783186944 * n"
    using M by (simp add: X_def)
  have kt': "126100789566373888 * n + 90071992547409920
             = 180143985094819840 * k + 18014398509481984 * t"
    using kt by linarith
  have c1: "2 * R \<le> 2 * X + 2 * n" and c2: "2 * X \<le> 2 * R + 2 * n"
    using close by (simp_all add: X_def)
  have up: "2 * R + 9007199254740992 < 18014398509481984 * k + 18014398509481984"
    using c1 M' kt' t n' by linarith
  have lo1: "18014398509481984 * k \<le> 2 * R + 9007199254740992 + 18014398509481984"
    using c2 M' kt' t n' by linarith
  have lo2: "t \<noteq> 0 \<Longrightarrow> 18014398509481984 * k \<le> 2 * R + 9007199254740992"
    using c2 M' kt' t n' by linarith
  have "Math_round R < k + 1"
    unfolding MR using up by (simp add: div_less_iff_less_mult)
  then show le: "Math_round (times_0_7 n) \<le> (7 * n + 5) div 10"
    by (simp add: R_def k_def)
  have "k \<le> (2 * R + 9007199254740992 + 18014398509481984) div 18014398509481984"
    using lo1 by (simp add: less_eq_div_iff_mult_less_eq)
  also have "\<dots> = Math_round R + 1"
    unfolding MR by simp
  finally show "(7 * n + 5) div 10 \<le> Math_round (times_0_7 n) + 1"
    by (simp add: R_def k_def)
  show "Math_round (times_0_7 n) = (7 * n + 5) div 10" if "n mod 10 \<noteq> 5"
  proof -
    have "t \<noteq> 0" using that unfolding t_def by presburger
    from lo2 [OF this] have "k \<le> Math_round R"
      unfolding MR by (simp add: less_eq_div_iff_mult_less_eq)
    with le show ?thesis by (simp add: R_def k_def)
  qed
qed

lemma round_seven_tenths: "round (real n * 0.7) = int ((7 * n + 5) div 10)"
proof -
  have e: "real n * 0.7 + 1 / 2 = real (7 * n + 5) / real 10" by simp
  show ?thesis unfolding round_def e by (rule floor_divide_of_nat_eq)
qed


text \<open>
  C7 (amended). Without a \<^verbatim>\<open>CompressionStream\<close> the compressed size of a code text of
  fewer than \<open>2 ^ 49\<close> bytes is a function of its byte length alone: it is
  \<^verbatim>\<open>Math.round\<close> of the double product \<^verbatim>\<open>length * 0.7\<close>. That is the exact
  \<open>round (length * 0.7)\<close> whenever the length does not end in the digit 5, and it is that
  value or one less in every case.
\<close>

theorem calculateGzipSize_fallback:
  assumes "compressionStream eng = None" and "length code < 2 ^ 49"
  shows "int (calculateGzipSize eng code) \<le> round (real (length code) * 0.7)
       \<and> round (real (length code) * 0.7) \<le> int (calculateGzipSize eng code) + 1
       \<and> (length code mod 10 \<noteq> 5 \<longrightarrow>
            int (calculateGzipSize eng code) = round (real (length code) * 0.7))
       \<and> (\<forall>eng' code'. compressionStream eng' = None \<and> length code' = length code \<longrightarrow>
            calculateGzipSize eng' code' = calculateGzipSize eng code)"
proof -
  have eq: "calculateGzipSize e c = Math_round (times_0_7 (length c))"
    if "compressionStream e = None" for e c
    using that by (simp add: calculateGzipSize_def)
  from Math_round_times_0_7_bounds [OF assms(2)] show ?thesis
    unfolding eq [OF assms(1)] round_seven_tenths by (auto simp: eq)
qed

theorem calculateGzipSize_fallback_witness:
  "compressionStream echo_engine = None \<and> length ''export {}'' < (2::nat) ^ 49
   \<and> length ''export {}'' mod 10 \<noteq> (5::nat)
   \<and> int (calculateGzipSize echo_engine ''export {}'') = round (real (length ''export {}'') * 0.7)
   \<and> round (real (length ''export {}'') * 0.7) = 6"
proof -
  have a: "compressionStream echo_engine = None" by (simp add: echo_engine_def)
  have b: "length ''export {}'' < (2::nat) ^ 49" by simp
  have c: "length ''export {}'' mod 10 \<noteq> (5::nat)" by simp
  have d: "round (real (length ''export {}'') * 0.7) = 6"
    unfolding round_seven_tenths by simp
  from calculateGzipSize_fallback [OF a b] a b c d show ?thesis by blast
qed

text \<open>
  C7 as stated fails at 45 bytes: the double \<^verbatim>\<open>45 * 0.7\<close> is \<^verbatim>\<open>31.499999999999996\<close>, which
  \<^verbatim>\<open>Math.round\<close> takes to 31, while \<open>round (45 * 0.7) = round 31.5 = 32\<close>.
\<close>

theorem calculateGzipSize_fallback_counterexample:
  "compressionStream echo_engine = None
   \<and> calculateGzipSize echo_engine (replicate 45 CHR ''a'') = 31
   \<and> round (real (length (replicate 45 CHR ''a'')) * 0.7) = 32"
proof -
  have "Math_round (times_0_7 45) = 31"
    by (simp add: Math_round_def times_0_7_def round_to_53_bits_def double_0_7_def
          bit_length.simps)
  moreover have "round (real (length (replicate 45 CHR ''a'')) * 0.7) = 32"
    unfolding round_seven_tenths by simp
  ultimately show ?thesis
    by (simp add: calculateGzipSize_def echo_engine_def)
qed

section \<open>Properties of the analyzer\<close>

lemmas action_defs = and_then_def lift_def succeed_def throw_def try_catch_def

lemma and_then_never:
  assumes "\<And>st. fst (m st) \<noteq> Inl E" and "\<And>x st. fst (f x st) \<noteq> Inl E"
  shows "fst (and_then m f st) \<noteq> Inl E"
proof (cases "m st")
  case (Pair r st')
  show ?thesis
  proof (cases r)
    case (Inl e)
    with Pair assms(1) [of st] show ?thesis by (simp add: and_then_def)
  next
    case (Inr x)
    with Pair assms(2) [of x st'] show ?thesis by (simp add: and_then_def)
  qed
qed

lemma getPackageInfo_error:
  "getPackageInfo cdn fetch n v = Inl e \<Longrightarrow> \<exists>spec inner. e = FetchPackageInfoFailed spec inner"
  by (auto simp: getPackageInfo_def Let_def split: option.splits if_splits)

lemma downloadPackage_error:
  "downloadPackage cdn fetch n v = Inl e \<Longrightarrow> \<exists>spec inner. e = FetchPackageInfoFailed spec inner"
  by (auto simp: downloadPackage_def split: sum.splits dest: getPackageInfo_error)

lemma build_and_measure_error:
  "build_and_measure eng entry files = Inl e \<Longrightarrow> \<exists>inner. e = BundlingFailed inner"
  by (auto simp: build_and_measure_def split: sum.splits if_splits list.splits)

lemma bundle_entry_error:
  "fst (bundle_entry eng entry files st) = Inl e \<Longrightarrow>
     e = EsbuildInitFailed \<or> (\<exists>inner. e = BundlingFailed inner)"
  by (auto simp: bundle_entry_def initialize_def action_defs
        split: sum.splits if_splits prod.splits dest: build_and_measure_error)

lemma minifyCode_error:
  "minifyCode eng code m = Inl e \<Longrightarrow> \<exists>msg. e = Thrown msg"
  by (auto simp: minifyCode_def Let_def split: sum.splits if_splits option.splits)

lemma analyzeWithCDN_never_unsupported:
  "fst (analyzeWithCDN opts w n v st) \<noteq> Inl WebContainerNotSupported"
  unfolding analyzeWithCDN_def Let_def
proof (intro and_then_never)
  fix st
  show "fst (lift (getPackageInfo (configured_cdn opts) (w_fetch w) n v) st)
          \<noteq> Inl WebContainerNotSupported"
    using getPackageInfo_error by (fastforce simp: lift_def)
  show "fst (lift (downloadPackage (configured_cdn opts) (w_fetch w) n v) st)
          \<noteq> Inl WebContainerNotSupported"
    using downloadPackage_error by (fastforce simp: lift_def)
  show "fst (bundle_entry (w_engine w) e fs st) \<noteq> Inl WebContainerNotSupported" for e fs
    using bundle_entry_error by fastforce
  show "fst (lift (minifyCode (w_engine w) c m) st) \<noteq> Inl WebContainerNotSupported" for c m
    using minifyCode_error by (fastforce simp: lift_def)
  show "fst (succeed x st) \<noteq> Inl WebContainerNotSupported" for x :: PackageStats
    by (simp add: succeed_def)
qed


lemma and_then_Inr: "m st = (Inr x, st') \<Longrightarrow> and_then m f st = f x st'"
  by (simp add: and_then_def)

lemma and_then_Inl: "m st = (Inl e, st') \<Longrightarrow> and_then m f st = (Inl e, st')"
  by (simp add: and_then_def)

lemma writeFile_never_unsupported:
  "fst (writeFile sb file content st) \<noteq> Inl WebContainerNotSupported"
  by (simp add: writeFile_def split: option.splits)

lemma installPackage_never_unsupported:
  "fst (installPackage sb n v st) \<noteq> Inl WebContainerNotSupported"
  by (simp add: installPackage_def Let_def split: option.splits sum.splits)

lemma readFile_never_unsupported:
  "fst (readFile sb file st) \<noteq> Inl WebContainerNotSupported"
  by (simp add: readFile_def split: sum.splits)

lemma analyzeWithWebContainer_unsupported_iff:
  "fst (analyzeWithWebContainer opts w n v st) = Inl WebContainerNotSupported
     \<longleftrightarrow> \<not> wc_isInitialized st \<and> \<not> boot (w_sandbox w)"
proof (cases "\<not> wc_isInitialized st \<and> \<not> boot (w_sandbox w)")
  case True
  then have "wc_initialize (w_sandbox w) st = (Inl WebContainerNotSupported, st)"
    by (simp add: wc_initialize_def)
  then show ?thesis
    using True unfolding analyzeWithWebContainer_def by (simp add: and_then_Inl)
next
  case False
  define st' where
    "st' = (if wc_isInitialized st then st else st\<lparr>webcontainer := True, wc_isInitialized := True\<rparr>)"
  from False have init: "wc_initialize (w_sandbox w) st = (Inr (), st')"
    by (auto simp: wc_initialize_def st'_def)
  have "fst (analyzeWithWebContainer opts w n v st) \<noteq> Inl WebContainerNotSupported"
    unfolding analyzeWithWebContainer_def Let_def
    apply (subst and_then_Inr [of "wc_initialize (w_sandbox w)" st "()" st', OF init])
    apply (intro and_then_never)
          apply (simp_all add: createPackageJson_def writeFile_never_unsupported
        installPackage_never_unsupported readFile_never_unsupported lift_def succeed_def
        teardown_def split: option.splits)
    done
  with False show ?thesis by simp
qed

lemma initialize_ok:
  "bundler_isInitialized st \<or> esbuild_initialize eng (esbuild_calls st) \<Longrightarrow>
     initialize eng st =
       (Inr (),
        if bundler_isInitialized st then st
        else st\<lparr>esbuild_calls := Suc (esbuild_calls st), bundler_isInitialized := True\<rparr>)"
  by (auto simp: initialize_def)

lemma initialize_fails:
  "\<not> (bundler_isInitialized st \<or> esbuild_initialize eng (esbuild_calls st)) \<Longrightarrow>
     initialize eng st = (Inl EsbuildInitFailed, st\<lparr>esbuild_calls := Suc (esbuild_calls st)\<rparr>)"
  by (auto simp: initialize_def)

lemma try_catch_wrap:
  "fst (try_catch m (\<lambda>err. throw (AnalyzeFailed n err)) st) = Inl (AnalyzeFailed n e)
     \<longleftrightarrow> fst (m st) = Inl e"
  by (cases "m st") (auto simp: try_catch_def throw_def split: sum.splits)

lemma add_entry_file_ignores_useWebContainer:
  "add_entry_file (opts\<lparr>opt_useWebContainer := x\<rparr>) e fs = add_entry_file opts e fs"
  by (simp add: add_entry_file_def cong: if_cong)

lemma analyzeWithCDN_ignores_useWebContainer:
  "analyzeWithCDN (opts\<lparr>opt_useWebContainer := x\<rparr>) w n v = analyzeWithCDN opts w n v"
  by (simp add: analyzeWithCDN_def add_entry_file_ignores_useWebContainer configured_cdn_def)

text \<open>
  C3 (amended). Once the bundler is initialized (it was, or the call of
  \<^verbatim>\<open>esbuild.initialize\<close> that \<open>analyzePackage\<close> makes fulfils), \<open>analyzePackage\<close> runs the sandbox
  strategy when \<^verbatim>\<open>useWebContainer\<close> was requested and the host reports the capability, and
  the CDN strategy otherwise; every error is wrapped with the package name. The error
  \<^verbatim>\<open>WebContainer not supported in this environment\<close> is surfaced exactly when the sandbox
  strategy was selected (requested, and the capability check passed) and booting the
  sandbox fails. The CDN strategy never raises it. A request for the sandbox on a host
  without the capability behaves exactly as no request: the CDN strategy runs and no
  error about the sandbox is raised.
\<close>

theorem analyzePackage_strategy:
  fixes opts :: BrowserPackageAnalyzerOptions and w :: world and n :: string
    and v :: "string option" and st :: analyzer_state
  defines "sandbox_selected \<equiv> opt_useWebContainer opts = Some True \<and> isSupported (w_runtime w)"
  defines "engine_ready \<equiv>
             bundler_isInitialized st \<or> esbuild_initialize (w_engine w) (esbuild_calls st)"
  shows "(engine_ready \<longrightarrow>
            analyzePackage opts w n v st =
              try_catch (if sandbox_selected then analyzeWithWebContainer opts w n v
                         else analyzeWithCDN opts w n v)
                (\<lambda>err. throw (AnalyzeFailed n err))
                (if bundler_isInitialized st then st
                 else st\<lparr>esbuild_calls := Suc (esbuild_calls st),
                         bundler_isInitialized := True\<rparr>))
       \<and> (fst (analyzePackage opts w n v st) = Inl (AnalyzeFailed n WebContainerNotSupported)
            \<longleftrightarrow> engine_ready \<and> sandbox_selected \<and> \<not> wc_isInitialized st \<and> \<not> boot (w_sandbox w))
       \<and> fst (analyzeWithCDN opts w n v st) \<noteq> Inl WebContainerNotSupported
       \<and> (opt_useWebContainer opts = Some True \<and> \<not> isSupported (w_runtime w) \<longrightarrow>
            analyzePackage opts w n v st
              = analyzePackage (opts\<lparr>opt_useWebContainer := None\<rparr>) w n v st)"
proof -
  let ?strategy = "if sandbox_selected then analyzeWithWebContainer opts w n v
                   else analyzeWithCDN opts w n v"
  let ?st1 = "if bundler_isInitialized st then st
              else st\<lparr>esbuild_calls := Suc (esbuild_calls st), bundler_isInitialized := True\<rparr>"
  have run: "analyzePackage opts w n v st
               = try_catch ?strategy (\<lambda>err. throw (AnalyzeFailed n err)) ?st1"
    if engine_ready
  proof -
    from that have "initialize (w_engine w) st = (Inr (), ?st1)"
      unfolding engine_ready_def by (rule initialize_ok)
    then show ?thesis
      by (simp add: analyzePackage_def try_catch_def and_then_Inr sandbox_selected_def)
  qed
  have stop: "analyzePackage opts w n v st
                = (Inl (AnalyzeFailed n EsbuildInitFailed),
                   st\<lparr>esbuild_calls := Suc (esbuild_calls st)\<rparr>)"
    if "\<not> engine_ready"
  proof -
    from that have "initialize (w_engine w) st
                      = (Inl EsbuildInitFailed, st\<lparr>esbuild_calls := Suc (esbuild_calls st)\<rparr>)"
      unfolding engine_ready_def by (rule initialize_fails)
    then show ?thesis
      by (simp add: analyzePackage_def try_catch_def and_then_Inl throw_def)
  qed
  have a: "engine_ready \<longrightarrow> analyzePackage opts w n v st
             = try_catch ?strategy (\<lambda>err. throw (AnalyzeFailed n err)) ?st1"
    using run by blast
  have b: "fst (analyzePackage opts w n v st) = Inl (AnalyzeFailed n WebContainerNotSupported)
            \<longleftrightarrow> engine_ready \<and> sandbox_selected \<and> \<not> wc_isInitialized st \<and> \<not> boot (w_sandbox w)"
  proof (cases engine_ready)
    case False
    with stop show ?thesis by simp
  next
    case True
    show ?thesis
    proof (cases sandbox_selected)
      case True
      with \<open>engine_ready\<close> run show ?thesis
        by (simp add: try_catch_wrap analyzeWithWebContainer_unsupported_iff)
    next
      case False
      with \<open>engine_ready\<close> run show ?thesis
        by (simp add: try_catch_wrap analyzeWithCDN_never_unsupported)
    qed
  qed
  have d: "opt_useWebContainer opts = Some True \<and> \<not> isSupported (w_runtime w) \<longrightarrow>
            analyzePackage opts w n v st
              = analyzePackage (opts\<lparr>opt_useWebContainer := None\<rparr>) w n v st"
    by (simp add: analyzePackage_def analyzeWithCDN_ignores_useWebContainer)
  from a b d analyzeWithCDN_never_unsupported show ?thesis by blast
qed



lemmas gzip_defs = calculateGzipSize_def Math_round_def times_0_7_def round_to_53_bits_def
  double_0_7_def bit_length.simps

lemma analyzeWithCDN_run:
  assumes "getPackageInfo (configured_cdn opts) (w_fetch w) n v = Inr info"
    and "downloadPackage (configured_cdn opts) (w_fetch w) n v = Inr files"
    and "entry_or_default (resolveMainFile (configured_cdn opts) (w_fetch w) info) = entry"
    and "bundler_isInitialized st"
  shows "analyzeWithCDN opts w n v st =
     (case build_and_measure (w_engine w) entry (add_entry_file opts entry files) of
        Inl e \<Rightarrow> (Inl e, st)
      | Inr b \<Rightarrow>
          (case minifyCode (w_engine w) (b_code b)
                  (Some (case opt_minifier opts of None \<Rightarrow> Esbuild | Some m \<Rightarrow> m)) of
             Inl e \<Rightarrow> (Inl e, st)
           | Inr minified \<Rightarrow>
               (Inr \<lparr>ps_name = pi_name info,
                     ps_size = m_size minified,
                     ps_gzipSize = m_gzipSize minified,
                     ps_parseTime =
                       (if opt_debug opts = Some True
                        then Some (import_time (w_runtime w) (m_code minified)) else None),
                     ps_dependencyCount =
                       length (case pi_dependencies info of None \<Rightarrow> [] | Some deps \<Rightarrow> deps),
                     ps_hasJSNext = False,
                     ps_hasJSModule = truthy (pi_module info),
                     ps_isModuleType = (pi_type info = Some Module),
                     ps_hasSideEffects =
                       SideEffectsFlag (pi_sideEffects info \<noteq> Some (SideEffectsFlag False)),
                     ps_peerDependencies =
                       map fst (case pi_peerDependencies info of None \<Rightarrow> [] | Some deps \<Rightarrow> deps),
                     ps_dependencySizes = [],
                     ps_assets =
                       [\<lparr>as_name = ''main'', as_size = m_size minified,
                         as_gzipSize = m_gzipSize minified, as_type = JS\<rparr>]\<rparr>, st)))"
  using assms
  by (simp add: analyzeWithCDN_def bundle_entry_def action_defs Let_def
        split: sum.splits)

lemma analyzePackage_run:
  assumes "bundler_isInitialized st \<or> esbuild_initialize (w_engine w) (esbuild_calls st)"
  shows "analyzePackage opts w n v st =
           try_catch (if opt_useWebContainer opts = Some True \<and> isSupported (w_runtime w)
                      then analyzeWithWebContainer opts w n v
                      else analyzeWithCDN opts w n v)
             (\<lambda>err. throw (AnalyzeFailed n err))
             (if bundler_isInitialized st then st
              else st\<lparr>esbuild_calls := Suc (esbuild_calls st), bundler_isInitialized := True\<rparr>)"
proof -
  from assms have "initialize (w_engine w) st =
      (Inr (),
       if bundler_isInitialized st then st
       else st\<lparr>esbuild_calls := Suc (esbuild_calls st), bundler_isInitialized := True\<rparr>)"
    by (rule initialize_ok)
  then show ?thesis
    by (simp add: analyzePackage_def try_catch_def and_then_Inr)
qed

lemma fresh_state_fields:
  "bundler_isInitialized fresh_state = False"
  "webcontainer fresh_state = False"
  "wc_isInitialized fresh_state = False"
  "esbuild_calls fresh_state = 0"
  "console_warnings fresh_state = {#}"
  by (simp_all add: fresh_state_def)

lemma analyzePackage_run_fresh:
  assumes "esbuild_initialize (w_engine w) 0"
  shows "analyzePackage opts w n v fresh_state =
           try_catch (if opt_useWebContainer opts = Some True \<and> isSupported (w_runtime w)
                      then analyzeWithWebContainer opts w n v
                      else analyzeWithCDN opts w n v)
             (\<lambda>err. throw (AnalyzeFailed n err))
             (fresh_state\<lparr>esbuild_calls := Suc 0, bundler_isInitialized := True\<rparr>)"
  using analyzePackage_run [of fresh_state w opts n v] assms
  by (simp add: fresh_state_fields)

lemma registry_index_info:
  "getPackageInfo Unpkg registry_index ''p'' None
     = Inr ((sample_info ''p'' ''1.0.0'' (Some ''index.js'') None)
         \<lparr>pi_files := [\<lparr>cf_path = ''index.js'', cf_size = 9, cf_type = File\<rparr>,
                      \<lparr>cf_path = ''util.js'', cf_size = 4, cf_type = File\<rparr>]\<rparr>)"
  by (simp add: cdn_defs sample_defs registry_index_def)

lemma registry_index_files:
  "downloadPackage Unpkg registry_index ''p'' None
     = Inr [''index.js'' \<mapsto> ''export {}'', ''util.js'' \<mapsto> ''util'']"
  by (simp add: cdn_defs sample_defs registry_index_def)

lemma registry_index_entry:
  "resolveMainFile Unpkg registry_index
     ((sample_info ''p'' ''1.0.0'' (Some ''index.js'') None)
         \<lparr>pi_files := [\<lparr>cf_path = ''index.js'', cf_size = 9, cf_type = File\<rparr>,
                      \<lparr>cf_path = ''util.js'', cf_size = 4, cf_type = File\<rparr>]\<rparr>)
     = Some ''index.js''"
  by (simp add: cdn_defs sample_defs registry_index_def resolveMainFile_def entryPoints_def)

lemma gzip_export: "calculateGzipSize echo_engine ''export {}'' = 6"
  by (simp add: gzip_defs echo_engine_def)





lemma echo_engine_fields:
  "esbuild_initialize echo_engine = (\<lambda>calls. calls = 0)"
  "esbuild_build echo_engine = (\<lambda>entryPoint files.
     case files entryPoint of
       None \<Rightarrow> Inl (''Could not resolve '' @ entryPoint)
     | Some content \<Rightarrow> Inr \<lparr>br_errors = [], br_outputFiles = [content]\<rparr>)"
  "esbuild_transform echo_engine = (\<lambda>code. Inr code)"
  "terser_minify echo_engine = (\<lambda>code. Inr (Some code))"
  "compressionStream echo_engine = None"
  by (simp_all add: echo_engine_def)

lemma sample_world_fields:
  "w_fetch (sample_world fetch eng) = fetch"
  "w_engine (sample_world fetch eng) = eng"
  "w_sandbox (sample_world fetch eng) = no_sandbox"
  "w_runtime (sample_world fetch eng) = plain_runtime"
  by (simp_all add: sample_world_def)

lemma default_options_fields:
  "opt_minifier default_options = None"
  "opt_debug default_options = None"
  "opt_customImports default_options = None"
  "opt_cdn default_options = None"
  "opt_useWebContainer default_options = None"
  by (simp_all add: default_options_def)

lemma plain_runtime_unsupported: "\<not> isSupported plain_runtime"
  by (simp add: isSupported_def plain_runtime_def)

text \<open>
  C3 as stated fails: with \<^verbatim>\<open>useWebContainer: true\<close> on a host that is not cross-origin
  isolated, the capability check fails, and the analysis succeeds by the CDN strategy
  instead of surfacing an error.
\<close>

theorem analyzePackage_sandbox_fallback_counterexample:
  "opt_useWebContainer (default_options\<lparr>opt_useWebContainer := Some True\<rparr>) = Some True
   \<and> \<not> isSupported (w_runtime (sample_world registry_index echo_engine))
   \<and> fst (analyzePackage (default_options\<lparr>opt_useWebContainer := Some True\<rparr>)
             (sample_world registry_index echo_engine) ''p'' None fresh_state)
       = Inr \<lparr>ps_name = ''p'', ps_size = 9, ps_gzipSize = 6, ps_parseTime = None,
               ps_dependencyCount = 0, ps_hasJSNext = False, ps_hasJSModule = False,
               ps_isModuleType = False, ps_hasSideEffects = SideEffectsFlag True,
               ps_peerDependencies = [], ps_dependencySizes = [],
               ps_assets = [\<lparr>as_name = ''main'', as_size = 9, as_gzipSize = 6, as_type = JS\<rparr>]\<rparr>"
proof -
  let ?opts = "default_options\<lparr>opt_useWebContainer := Some True\<rparr>"
  let ?w = "sample_world registry_index echo_engine"
  let ?st = "fresh_state\<lparr>esbuild_calls := Suc 0, bundler_isInitialized := True\<rparr>"
  let ?info = "(sample_info ''p'' ''1.0.0'' (Some ''index.js'') None)
         \<lparr>pi_files := [\<lparr>cf_path = ''index.js'', cf_size = 9, cf_type = File\<rparr>,
                      \<lparr>cf_path = ''util.js'', cf_size = 4, cf_type = File\<rparr>]\<rparr>"
  let ?files = "[''index.js'' \<mapsto> ''export {}'', ''util.js'' \<mapsto> ''util'']"
  have req: "opt_useWebContainer ?opts = Some True" by simp
  have unsup: "\<not> isSupported (w_runtime ?w)"
    by (simp add: sample_world_fields plain_runtime_unsupported)
  have ready: "esbuild_initialize (w_engine ?w) 0"
    by (simp add: sample_world_fields echo_engine_fields)
  have cdn: "configured_cdn ?opts = Unpkg"
    by (simp add: configured_cdn_def default_options_fields)
  have info: "getPackageInfo (configured_cdn ?opts) (w_fetch ?w) ''p'' None = Inr ?info"
    unfolding cdn sample_world_fields by (rule registry_index_info)
  have files: "downloadPackage (configured_cdn ?opts) (w_fetch ?w) ''p'' None = Inr ?files"
    unfolding cdn sample_world_fields by (rule registry_index_files)
  have entry: "entry_or_default (resolveMainFile (configured_cdn ?opts) (w_fetch ?w) ?info)
                 = ''index.js''"
    unfolding cdn sample_world_fields registry_index_entry
    by (simp add: entry_or_default_def or_else_def)
  have st: "bundler_isInitialized ?st" by simp
  have build: "build_and_measure (w_engine ?w) ''index.js''
                 (add_entry_file ?opts ''index.js'' ?files)
               = Inr \<lparr>b_code = ''export {}'', b_size = 9, b_gzipSize = 6,
                      b_assets = [\<lparr>ba_name = ''main'', ba_size = 9, ba_type = ''js''\<rparr>]\<rparr>"
    by (simp add: sample_world_fields build_and_measure_def add_entry_file_def
          echo_engine_fields gzip_export)
  have minify: "minifyCode (w_engine ?w) ''export {}'' (Some Esbuild)
                = Inr \<lparr>m_code = ''export {}'', m_size = 9, m_gzipSize = 6\<rparr>"
    by (simp add: sample_world_fields minifyCode_def default_options_fields
          echo_engine_fields gzip_export)
  have "analyzeWithCDN ?opts ?w ''p'' None ?st
      = (Inr \<lparr>ps_name = ''p'', ps_size = 9, ps_gzipSize = 6, ps_parseTime = None,
               ps_dependencyCount = 0, ps_hasJSNext = False, ps_hasJSModule = False,
               ps_isModuleType = False, ps_hasSideEffects = SideEffectsFlag True,
               ps_peerDependencies = [], ps_dependencySizes = [],
               ps_assets = [\<lparr>as_name = ''main'', as_size = 9, as_gzipSize = 6, as_type = JS\<rparr>]\<rparr>,
         ?st)"
    unfolding analyzeWithCDN_run [OF info files entry st] build
    by (simp add: minify default_options_fields sample_info_def truthy_def)
  with analyzePackage_run_fresh [OF ready, of ?opts "''p''" None] unsup
  have "fst (analyzePackage ?opts ?w ''p'' None fresh_state)
       = Inr \<lparr>ps_name = ''p'', ps_size = 9, ps_gzipSize = 6, ps_parseTime = None,
               ps_dependencyCount = 0, ps_hasJSNext = False, ps_hasJSModule = False,
               ps_isModuleType = False, ps_hasSideEffects = SideEffectsFlag True,
               ps_peerDependencies = [], ps_dependencySizes = [],
               ps_assets = [\<lparr>as_name = ''main'', as_size = 9, as_gzipSize = 6, as_type = JS\<rparr>]\<rparr>"
    by (simp add: try_catch_def)
  with req unsup show ?thesis by blast
qed

theorem analyzePackage_strategy_witness:
  "fst (analyzePackage (default_options\<lparr>opt_useWebContainer := Some True\<rparr>)
          ((sample_world registry_index echo_engine)\<lparr>w_runtime := isolated_runtime\<rparr>)
          ''p'' None fresh_state)
     = Inl (AnalyzeFailed ''p'' WebContainerNotSupported)
   \<and> analyzePackage (default_options\<lparr>opt_useWebContainer := Some True\<rparr>)
          (sample_world registry_index echo_engine) ''p'' None fresh_state
       = analyzePackage default_options
          (sample_world registry_index echo_engine) ''p'' None fresh_state
   \<and> fst (analyzePackage (default_options\<lparr>opt_useWebContainer := Some True\<rparr>)
          (sample_world registry_index echo_engine) ''p'' None fresh_state)
       \<noteq> Inl (AnalyzeFailed ''p'' WebContainerNotSupported)"
proof -
  let ?opts = "default_options\<lparr>opt_useWebContainer := Some True\<rparr>"
  let ?w0 = "sample_world registry_index echo_engine"
  let ?w1 = "?w0\<lparr>w_runtime := isolated_runtime\<rparr>"
  have none: "?opts\<lparr>opt_useWebContainer := None\<rparr> = default_options"
    by (simp add: default_options_def)
  note sandbox = analyzePackage_strategy [of fresh_state ?w1 ?opts "''p''" None]
  note fallback = analyzePackage_strategy [of fresh_state ?w0 ?opts "''p''" None]
  have a: "fst (analyzePackage ?opts ?w1 ''p'' None fresh_state)
             = Inl (AnalyzeFailed ''p'' WebContainerNotSupported)"
    using sandbox [THEN conjunct2, THEN conjunct1]
    by (simp add: sample_world_fields echo_engine_fields isSupported_def isolated_runtime_def
          plain_runtime_def no_sandbox_def fresh_state_def)
  have b: "analyzePackage ?opts ?w0 ''p'' None fresh_state
             = analyzePackage default_options ?w0 ''p'' None fresh_state"
    using fallback [THEN conjunct2, THEN conjunct2, THEN conjunct2]
    by (simp add: sample_world_fields plain_runtime_unsupported none)
  have c: "fst (analyzePackage ?opts ?w0 ''p'' None fresh_state)
              \<noteq> Inl (AnalyzeFailed ''p'' WebContainerNotSupported)"
    using fallback [THEN conjunct2, THEN conjunct1]
    by (simp add: sample_world_fields plain_runtime_unsupported)
  from a b c show ?thesis by blast
qed

text \<open>
  C2 (amended). On the terser branch, a minifier that completes without output
  (\<^verbatim>\<open>result.code\<close> undefined or empty) makes \<open>minifyCode\<close> return the original code
  unmodified. A minifier that throws, on either branch, makes \<open>minifyCode\<close> fail with that
  error; in the CDN strategy of \<open>analyzePackage\<close> this failure ends the analysis with the
  error wrapped with the package name.
\<close>

theorem minifyCode_fallback_and_failure:
  fixes opts :: BrowserPackageAnalyzerOptions and w :: world and n code :: string
    and v :: "string option" and st :: analyzer_state
  defines "eng \<equiv> w_engine w"
  defines "cdn \<equiv> configured_cdn opts"
  shows "(terser_minify eng code = Inr None \<or> terser_minify eng code = Inr (Some []) \<longrightarrow>
            minifyCode eng code (Some Terser)
              = Inr \<lparr>m_code = code, m_size = length code,
                     m_gzipSize = calculateGzipSize eng code\<rparr>)
       \<and> (\<forall>msg. esbuild_transform eng code = Inl msg \<longrightarrow>
            minifyCode eng code (Some Esbuild) = Inl (Thrown msg)
            \<and> minifyCode eng code None = Inl (Thrown msg))
       \<and> (\<forall>msg. terser_minify eng code = Inl msg \<longrightarrow>
            minifyCode eng code (Some Terser) = Inl (Thrown msg))
       \<and> (\<forall>info files b err.
            \<not> (opt_useWebContainer opts = Some True \<and> isSupported (w_runtime w))
            \<and> (bundler_isInitialized st \<or> esbuild_initialize eng (esbuild_calls st))
            \<and> getPackageInfo cdn (w_fetch w) n v = Inr info
            \<and> downloadPackage cdn (w_fetch w) n v = Inr files
            \<and> build_and_measure eng (entry_or_default (resolveMainFile cdn (w_fetch w) info))
                  (add_entry_file opts (entry_or_default (resolveMainFile cdn (w_fetch w) info))
                     files) = Inr b
            \<and> minifyCode eng (b_code b)
                  (Some (case opt_minifier opts of None \<Rightarrow> Esbuild | Some m \<Rightarrow> m)) = Inl err
            \<longrightarrow> fst (analyzePackage opts w n v st) = Inl (AnalyzeFailed n err))"
proof -
  have a: "terser_minify eng code = Inr None \<or> terser_minify eng code = Inr (Some []) \<longrightarrow>
            minifyCode eng code (Some Terser)
              = Inr \<lparr>m_code = code, m_size = length code,
                     m_gzipSize = calculateGzipSize eng code\<rparr>"
    by (auto simp: minifyCode_def)
  have b: "\<forall>msg. esbuild_transform eng code = Inl msg \<longrightarrow>
            minifyCode eng code (Some Esbuild) = Inl (Thrown msg)
            \<and> minifyCode eng code None = Inl (Thrown msg)"
    by (simp add: minifyCode_def)
  have c: "\<forall>msg. terser_minify eng code = Inl msg \<longrightarrow>
            minifyCode eng code (Some Terser) = Inl (Thrown msg)"
    by (simp add: minifyCode_def)
  have d: "fst (analyzePackage opts w n v st) = Inl (AnalyzeFailed n err)"
    if cdn_strategy: "\<not> (opt_useWebContainer opts = Some True \<and> isSupported (w_runtime w))"
      and ready: "bundler_isInitialized st \<or> esbuild_initialize eng (esbuild_calls st)"
      and info: "getPackageInfo cdn (w_fetch w) n v = Inr info"
      and files: "downloadPackage cdn (w_fetch w) n v = Inr files"
      and build: "build_and_measure eng (entry_or_default (resolveMainFile cdn (w_fetch w) info))
                  (add_entry_file opts (entry_or_default (resolveMainFile cdn (w_fetch w) info))
                     files) = Inr b"
      and minify: "minifyCode eng (b_code b)
                  (Some (case opt_minifier opts of None \<Rightarrow> Esbuild | Some m \<Rightarrow> m)) = Inl err"
    for info files b err
  proof -
    let ?st = "if bundler_isInitialized st then st
               else st\<lparr>esbuild_calls := Suc (esbuild_calls st), bundler_isInitialized := True\<rparr>"
    have "bundler_isInitialized ?st" by simp
    then have "analyzeWithCDN opts w n v ?st = (Inl err, ?st)"
      using analyzeWithCDN_run [of opts w n v info files _ ?st, OF _ _ refl]
        info files build minify
      by (simp add: eng_def cdn_def)
    with analyzePackage_run [of st w opts n v] ready cdn_strategy show ?thesis
      by (simp add: eng_def try_catch_def throw_def)
  qed
  from a b c d show ?thesis by blast
qed


lemma gzip_export_any:
  "compressionStream eng = None \<Longrightarrow> calculateGzipSize eng ''export {}'' = 6"
  by (simp add: gzip_defs)

lemma failing_minifier_engine_fields:
  "esbuild_initialize failing_minifier_engine = (\<lambda>calls. calls = 0)"
  "esbuild_build failing_minifier_engine = esbuild_build echo_engine"
  "esbuild_transform failing_minifier_engine = (\<lambda>code. Inl ''Transform failed'')"
  "terser_minify failing_minifier_engine = (\<lambda>code. Inl ''Unexpected token'')"
  "compressionStream failing_minifier_engine = None"
  by (simp_all add: failing_minifier_engine_def echo_engine_fields)

lemma default_cdn: "configured_cdn default_options = Unpkg"
  by (simp add: configured_cdn_def default_options_fields)

lemma registry_index_build:
  assumes "esbuild_build eng = esbuild_build echo_engine" and "compressionStream eng = None"
  shows "build_and_measure eng ''index.js''
           (add_entry_file default_options ''index.js''
              [''index.js'' \<mapsto> ''export {}'', ''util.js'' \<mapsto> ''util''])
         = Inr \<lparr>b_code = ''export {}'', b_size = 9, b_gzipSize = 6,
                b_assets = [\<lparr>ba_name = ''main'', ba_size = 9, ba_type = ''js''\<rparr>]\<rparr>"
  using assms
  by (simp add: build_and_measure_def add_entry_file_def echo_engine_fields gzip_export_any)

lemma failing_world_info:
  "getPackageInfo (configured_cdn default_options)
     (w_fetch (sample_world registry_index failing_minifier_engine)) ''p'' None
   = Inr ((sample_info ''p'' ''1.0.0'' (Some ''index.js'') None)
         \<lparr>pi_files := [\<lparr>cf_path = ''index.js'', cf_size = 9, cf_type = File\<rparr>,
                      \<lparr>cf_path = ''util.js'', cf_size = 4, cf_type = File\<rparr>]\<rparr>)"
  unfolding default_cdn sample_world_fields by (rule registry_index_info)

lemma failing_world_files:
  "downloadPackage (configured_cdn default_options)
     (w_fetch (sample_world registry_index failing_minifier_engine)) ''p'' None
   = Inr [''index.js'' \<mapsto> ''export {}'', ''util.js'' \<mapsto> ''util'']"
  unfolding default_cdn sample_world_fields by (rule registry_index_files)

lemma failing_world_entry:
  "entry_or_default
     (resolveMainFile (configured_cdn default_options)
        (w_fetch (sample_world registry_index failing_minifier_engine))
        ((sample_info ''p'' ''1.0.0'' (Some ''index.js'') None)
           \<lparr>pi_files := [\<lparr>cf_path = ''index.js'', cf_size = 9, cf_type = File\<rparr>,
                        \<lparr>cf_path = ''util.js'', cf_size = 4, cf_type = File\<rparr>]\<rparr>))
   = ''index.js''"
  unfolding default_cdn sample_world_fields registry_index_entry
  by (simp add: entry_or_default_def or_else_def)

lemma failing_world_build:
  "build_and_measure (w_engine (sample_world registry_index failing_minifier_engine)) ''index.js''
     (add_entry_file default_options ''index.js''
        [''index.js'' \<mapsto> ''export {}'', ''util.js'' \<mapsto> ''util''])
   = Inr \<lparr>b_code = ''export {}'', b_size = 9, b_gzipSize = 6,
          b_assets = [\<lparr>ba_name = ''main'', ba_size = 9, ba_type = ''js''\<rparr>]\<rparr>"
  unfolding sample_world_fields
  by (rule registry_index_build) (simp_all add: failing_minifier_engine_fields)

lemma failing_world_minify:
  "minifyCode (w_engine (sample_world registry_index failing_minifier_engine)) ''export {}''
     (Some Esbuild) = Inl (Thrown ''Transform failed'')"
  by (simp add: sample_world_fields minifyCode_def failing_minifier_engine_fields)

lemma transform_failure_ends_analysis:
  "fst (analyzePackage default_options (sample_world registry_index failing_minifier_engine)
          ''p'' None fresh_state)
     = Inl (AnalyzeFailed ''p'' (Thrown ''Transform failed''))"
proof -
  let ?w = "sample_world registry_index failing_minifier_engine"
  let ?st = "fresh_state\<lparr>esbuild_calls := Suc 0, bundler_isInitialized := True\<rparr>"
  have ready: "esbuild_initialize (w_engine ?w) 0"
    by (simp add: sample_world_fields failing_minifier_engine_fields)
  have st: "bundler_isInitialized ?st" by simp
  have "analyzeWithCDN default_options ?w ''p'' None ?st
          = (Inl (Thrown ''Transform failed''), ?st)"
    unfolding analyzeWithCDN_run [OF failing_world_info failing_world_files failing_world_entry st]
      failing_world_build
    by (simp add: failing_world_minify default_options_fields)
  with analyzePackage_run_fresh [OF ready, of default_options "''p''" None]
  show ?thesis
    by (simp add: try_catch_def throw_def sample_world_fields plain_runtime_unsupported
          default_options_fields)
qed

text \<open>
  C2 as stated fails: when esbuild's \<^verbatim>\<open>transform\<close> throws, \<open>minifyCode\<close> does not return
  the original code but fails, and the analysis of the package fails with it.
\<close>

theorem minifyCode_failure_counterexample:
  "minifyCode failing_minifier_engine ''export {}'' (Some Esbuild)
     = Inl (Thrown ''Transform failed'')
   \<and> fst (analyzePackage default_options
            (sample_world registry_index failing_minifier_engine) ''p'' None fresh_state)
       = Inl (AnalyzeFailed ''p'' (Thrown ''Transform failed''))"
  using transform_failure_ends_analysis
  by (simp add: minifyCode_def failing_minifier_engine_fields)

theorem minifyCode_fallback_and_failure_witness:
  "minifyCode silent_terser_engine ''let a = 1'' (Some Terser)
     = Inr \<lparr>m_code = ''let a = 1'', m_size = 9, m_gzipSize = 6\<rparr>
   \<and> minifyCode failing_minifier_engine ''let a = 1'' None = Inl (Thrown ''Transform failed'')
   \<and> minifyCode failing_minifier_engine ''let a = 1'' (Some Terser)
       = Inl (Thrown ''Unexpected token'')
   \<and> fst (analyzePackage default_options
            (sample_world registry_index failing_minifier_engine) ''p'' None fresh_state)
       = Inl (AnalyzeFailed ''p'' (Thrown ''Transform failed''))"
proof -
  let ?silent = "sample_world registry_index silent_terser_engine"
  let ?failing = "sample_world registry_index failing_minifier_engine"
  note quiet = minifyCode_fallback_and_failure
                 [of ?silent "''let a = 1''" default_options fresh_state "''p''" None]
  note loud = minifyCode_fallback_and_failure
                 [of ?failing "''let a = 1''" default_options fresh_state "''p''" None]
  have gz: "calculateGzipSize silent_terser_engine ''let a = 1'' = 6"
    by (simp add: gzip_defs silent_terser_engine_def echo_engine_fields)
  have a: "minifyCode silent_terser_engine ''let a = 1'' (Some Terser)
             = Inr \<lparr>m_code = ''let a = 1'', m_size = 9, m_gzipSize = 6\<rparr>"
    using quiet [THEN conjunct1] gz
    by (simp add: sample_world_fields silent_terser_engine_def)
  have b: "minifyCode failing_minifier_engine ''let a = 1'' None
             = Inl (Thrown ''Transform failed'')"
    using loud [THEN conjunct2, THEN conjunct1]
    by (simp add: sample_world_fields failing_minifier_engine_fields)
  have c: "minifyCode failing_minifier_engine ''let a = 1'' (Some Terser)
             = Inl (Thrown ''Unexpected token'')"
    using loud [THEN conjunct2, THEN conjunct2, THEN conjunct1]
    by (simp add: sample_world_fields failing_minifier_engine_fields)
  have d: "fst (analyzePackage default_options ?failing ''p'' None fresh_state)
             = Inl (AnalyzeFailed ''p'' (Thrown ''Transform failed''))"
  proof -
    have cdn_strategy:
      "\<not> (opt_useWebContainer default_options = Some True \<and> isSupported (w_runtime ?failing))"
      by (simp add: default_options_fields)
    have ready: "bundler_isInitialized fresh_state
                   \<or> esbuild_initialize (w_engine ?failing) (esbuild_calls fresh_state)"
      by (simp add: sample_world_fields failing_minifier_engine_fields fresh_state_fields)
    have build: "build_and_measure (w_engine ?failing)
         (entry_or_default (resolveMainFile (configured_cdn default_options) (w_fetch ?failing)
            ((sample_info ''p'' ''1.0.0'' (Some ''index.js'') None)
               \<lparr>pi_files := [\<lparr>cf_path = ''index.js'', cf_size = 9, cf_type = File\<rparr>,
                            \<lparr>cf_path = ''util.js'', cf_size = 4, cf_type = File\<rparr>]\<rparr>)))
         (add_entry_file default_options
            (entry_or_default (resolveMainFile (configured_cdn default_options) (w_fetch ?failing)
               ((sample_info ''p'' ''1.0.0'' (Some ''index.js'') None)
                  \<lparr>pi_files := [\<lparr>cf_path = ''index.js'', cf_size = 9, cf_type = File\<rparr>,
                               \<lparr>cf_path = ''util.js'', cf_size = 4, cf_type = File\<rparr>]\<rparr>)))
            [''index.js'' \<mapsto> ''export {}'', ''util.js'' \<mapsto> ''util''])
       = Inr \<lparr>b_code = ''export {}'', b_size = 9, b_gzipSize = 6,
              b_assets = [\<lparr>ba_name = ''main'', ba_size = 9, ba_type = ''js''\<rparr>]\<rparr>"
      unfolding failing_world_entry by (rule failing_world_build)
    have minify: "minifyCode (w_engine ?failing)
         (b_code \<lparr>b_code = ''export {}'', b_size = 9, b_gzipSize = 6,
              b_assets = [\<lparr>ba_name = ''main'', ba_size = 9, ba_type = ''js''\<rparr>]\<rparr>)
         (Some (case opt_minifier default_options of None \<Rightarrow> Esbuild | Some m \<Rightarrow> m))
       = Inl (Thrown ''Transform failed'')"
      using failing_world_minify by (simp add: default_options_fields)
    from loud [THEN conjunct2, THEN conjunct2, THEN conjunct2, rule_format,
               OF conjI [OF cdn_strategy conjI [OF ready conjI [OF failing_world_info
                 conjI [OF failing_world_files conjI [OF build minify]]]]]]
    show ?thesis .
  qed
  from a b c d show ?thesis by blast
qed

text \<open>
  C1. When the resolved entry path is not a key of the file set, \<open>analyzeWithCDN\<close> stores
  the synthesized module under the key \<^verbatim>\<open>entry.js\<close> but still passes the resolved path to
  the bundler. For a package none of whose entry candidates can be fetched, the resolved
  path is the default \<^verbatim>\<open>index.js\<close>: the file set gains \<^verbatim>\<open>entry.js\<close>, the bundler is asked
  for \<^verbatim>\<open>index.js\<close>, which is not in the set, and the analysis fails.
\<close>

theorem analyzeWithCDN_bundles_missing_entry:
  "resolveMainFile Unpkg registry_three_files
     ((sample_info ''p'' ''1.0.0'' None None)
         \<lparr>pi_files := [\<lparr>cf_path = ''a.js'', cf_size = 3, cf_type = File\<rparr>,
                      \<lparr>cf_path = ''lib/b.js'', cf_size = 0, cf_type = File\<rparr>,
                      \<lparr>cf_path = ''c.js'', cf_size = 5, cf_type = File\<rparr>]\<rparr>) = None
   \<and> add_entry_file default_options ''index.js'' [''a.js'' \<mapsto> ''aaa'', ''c.js'' \<mapsto> ''ccccc'']
       = [''a.js'' \<mapsto> ''aaa'', ''c.js'' \<mapsto> ''ccccc'',
          ''entry.js'' \<mapsto> ''export * from '' @ [CHR 0x27] @ ''./index.js'' @ [CHR 0x27] @ '';'']
   \<and> fst (analyzePackage default_options (sample_world registry_three_files echo_engine)
            ''p'' None fresh_state)
       = Inl (AnalyzeFailed ''p'' (BundlingFailed (Thrown ''Could not resolve index.js'')))"
proof -
  let ?w = "sample_world registry_three_files echo_engine"
  let ?st = "fresh_state\<lparr>esbuild_calls := Suc 0, bundler_isInitialized := True\<rparr>"
  let ?info = "(sample_info ''p'' ''1.0.0'' None None)
         \<lparr>pi_files := [\<lparr>cf_path = ''a.js'', cf_size = 3, cf_type = File\<rparr>,
                      \<lparr>cf_path = ''lib/b.js'', cf_size = 0, cf_type = File\<rparr>,
                      \<lparr>cf_path = ''c.js'', cf_size = 5, cf_type = File\<rparr>]\<rparr>"
  let ?files = "[''a.js'' \<mapsto> ''aaa'', ''c.js'' \<mapsto> ''ccccc'']"
  have none: "resolveMainFile Unpkg registry_three_files ?info = None"
    by (simp add: cdn_defs sample_defs registry_three_files_def resolveMainFile_def
          entryPoints_def)
  have added: "add_entry_file default_options ''index.js'' ?files
       = [''a.js'' \<mapsto> ''aaa'', ''c.js'' \<mapsto> ''ccccc'',
          ''entry.js'' \<mapsto> ''export * from '' @ [CHR 0x27] @ ''./index.js'' @ [CHR 0x27] @ '';'']"
    by (simp add: add_entry_file_def default_options_fields)
  have ready: "esbuild_initialize (w_engine ?w) 0"
    by (simp add: sample_world_fields echo_engine_fields)
  have info: "getPackageInfo (configured_cdn default_options) (w_fetch ?w) ''p'' None = Inr ?info"
    unfolding default_cdn sample_world_fields
    by (simp add: cdn_defs sample_defs registry_three_files_def)
  have files: "downloadPackage (configured_cdn default_options) (w_fetch ?w) ''p'' None
                 = Inr ?files"
    unfolding default_cdn sample_world_fields
    by (simp add: cdn_defs sample_defs registry_three_files_def)
  have entry: "entry_or_default (resolveMainFile (configured_cdn default_options) (w_fetch ?w) ?info)
                 = ''index.js''"
    unfolding default_cdn sample_world_fields none
    by (simp add: entry_or_default_def or_else_def)
  have st: "bundler_isInitialized ?st" by simp
  have build: "build_and_measure (w_engine ?w) ''index.js''
                 (add_entry_file default_options ''index.js'' ?files)
               = Inl (BundlingFailed (Thrown ''Could not resolve index.js''))"
    unfolding added sample_world_fields
    by (simp add: build_and_measure_def echo_engine_fields)
  have "analyzeWithCDN default_options ?w ''p'' None ?st
          = (Inl (BundlingFailed (Thrown ''Could not resolve index.js'')), ?st)"
    unfolding analyzeWithCDN_run [OF info files entry st] build by simp
  with analyzePackage_run_fresh [OF ready, of default_options "''p''" None]
  have "fst (analyzePackage default_options ?w ''p'' None fresh_state)
       = Inl (AnalyzeFailed ''p'' (BundlingFailed (Thrown ''Could not resolve index.js'')))"
    by (simp add: try_catch_def throw_def sample_world_fields plain_runtime_unsupported
          default_options_fields)
  with none added show ?thesis by blast
qed

section \<open>Properties of the export-size batch\<close>


























end
